theory Spec2Isabelle
  imports Complex_Main
begin

section \<open>Values of the program\<close>

subsection \<open>Floats\<close>

text \<open>
  The floats of \<^verbatim>\<open>technical_analysis.py\<close> are numpy \<^verbatim>\<open>float64\<close> scalars read from
  pandas series. A float is modelled as a real number or NaN: NaN is what an indicator
  holds before its window is filled and what \<^verbatim>\<open>pd.to_numeric(errors='coerce')\<close> leaves
  in a cell that is not a number. The rounding error of float arithmetic, the infinities
  and the sign of zero are outside the model.
\<close>

datatype fl = Flt real | NaN

text \<open>Comparisons with NaN are false, whichever side it is on.\<close>

fun fl_less :: "fl \<Rightarrow> fl \<Rightarrow> bool" where
  "fl_less (Flt x) (Flt y) = (x < y)"
| "fl_less _ _ = False"

definition fl_greater :: "fl \<Rightarrow> fl \<Rightarrow> bool" where
  "fl_greater a b = fl_less b a"

text \<open>Arithmetic propagates NaN.\<close>

fun fl_sub :: "fl \<Rightarrow> fl \<Rightarrow> fl" where
  "fl_sub (Flt x) (Flt y) = Flt (x - y)"
| "fl_sub _ _ = NaN"

fun fl_mul :: "fl \<Rightarrow> fl \<Rightarrow> fl" where
  "fl_mul (Flt x) (Flt y) = Flt (x * y)"
| "fl_mul _ _ = NaN"

fun fl_abs :: "fl \<Rightarrow> fl" where
  "fl_abs (Flt x) = Flt \<bar>x\<bar>"
| "fl_abs NaN = NaN"

text \<open>
  A numpy division by zero does not raise: it gives an infinity or NaN. The only
  quotient of the program is a non-negative number over the current price, compared
  with \<^verbatim>\<open>< 0.01\<close>; that comparison is false for plus infinity and for NaN alike, so the
  model gives NaN for a quotient by zero.
\<close>

fun fl_div :: "fl \<Rightarrow> fl \<Rightarrow> fl" where
  "fl_div (Flt x) (Flt y) = (if y = 0 then NaN else Flt (x / y))"
| "fl_div _ _ = NaN"

text \<open>
  Python's builtin \<^verbatim>\<open>min(a, b)\<close> keeps \<^verbatim>\<open>a\<close> unless \<^verbatim>\<open>b < a\<close>, and \<^verbatim>\<open>max(a, b)\<close>
  keeps \<^verbatim>\<open>a\<close> unless \<^verbatim>\<open>b > a\<close>.
\<close>

definition py_min :: "fl \<Rightarrow> fl \<Rightarrow> fl" where
  "py_min a b = (if fl_less b a then b else a)"

definition py_max :: "fl \<Rightarrow> fl \<Rightarrow> fl" where
  "py_max a b = (if fl_greater b a then b else a)"

text \<open>
  \<^verbatim>\<open>round(x, n)\<close> on a float64 scales by \<open>10 ^ n\<close>, rounds to the nearest integer with
  ties to the even one, and scales back; NaN stays NaN.
\<close>

definition rint :: "real \<Rightarrow> int" where
  "rint x =
     (let f = \<lfloor>x\<rfloor>; d = x - of_int f
      in if d < 1 / 2 then f
         else if 1 / 2 < d then f + 1
         else if even f then f else f + 1)"

definition round_to :: "nat \<Rightarrow> real \<Rightarrow> real" where
  "round_to n x = of_int (rint (x * 10 ^ n)) / 10 ^ n"

fun py_round :: "fl \<Rightarrow> nat \<Rightarrow> fl" where
  "py_round (Flt x) n = Flt (round_to n x)"
| "py_round NaN n = NaN"

subsection \<open>Integers as text\<close>

text \<open>The decimal text of an integer, as an f-string renders it.\<close>

definition digit_char :: "nat \<Rightarrow> char" where
  "digit_char d = ''0123456789'' ! d"

fun str_nat :: "nat \<Rightarrow> string" where
  "str_nat n = (if n < 10 then [digit_char n] else str_nat (n div 10) @ [digit_char (n mod 10)])"

declare str_nat.simps [simp del]

definition str_int :: "int \<Rightarrow> string" where
  "str_int i = (if i < 0 then CHR ''-'' # str_nat (nat (- i)) else str_nat (nat i))"

subsection \<open>Dictionaries\<close>

text \<open>
  The analyser returns dictionaries with string keys. A dictionary is an association
  list in insertion order, read with \<^const>\<open>map_of\<close>; every dictionary literal of the
  source has distinct keys.
\<close>

datatype pyval =
    PBool bool
  | PInt int
  | PFloat fl
  | PStr string
  | PDict "(string \<times> pyval) list"

type_synonym pydict = "(string \<times> pyval) list"

section \<open>Scoring from indicators\<close>

text \<open>The parameters of \<^verbatim>\<open>_generate_signal_from_indicators\<close>.\<close>

record indicator_args =
  current_price :: fl
  sma_20 :: fl
  sma_50 :: fl
  ema_12 :: fl
  ema_26 :: fl
  rsi :: fl
  macd :: fl
  macd_signal :: fl
  bb_upper :: fl
  bb_lower :: fl
  bb_middle :: fl
  stoch_k :: fl
  stoch_d :: fl
  support :: fl
  resistance :: fl
  timeframe :: string

text \<open>
  The two lists the rules append to: \<^verbatim>\<open>signals\<close> and \<^verbatim>\<open>confidence_factors\<close>.
\<close>

type_synonym votes = "string list \<times> real list"

definition cast :: "string \<Rightarrow> real \<Rightarrow> votes \<Rightarrow> votes" where
  "cast s w v = (fst v @ [s], snd v @ [w])"

definition trend_rule :: "indicator_args \<Rightarrow> votes \<Rightarrow> votes" where
  "trend_rule a v =
     (if fl_greater (sma_20 a) (sma_50 a) \<and> fl_greater (ema_12 a) (ema_26 a)
        then cast ''BUY'' 0.25 v
      else if fl_less (sma_20 a) (sma_50 a) \<and> fl_less (ema_12 a) (ema_26 a)
        then cast ''SELL'' 0.25 v
      else v)"

definition rsi_rule :: "indicator_args \<Rightarrow> votes \<Rightarrow> votes" where
  "rsi_rule a v =
     (if fl_less (rsi a) (Flt 30) then cast ''BUY'' 0.20 v
      else if fl_greater (rsi a) (Flt 70) then cast ''SELL'' 0.20 v
      else v)"

definition macd_rule :: "indicator_args \<Rightarrow> votes \<Rightarrow> votes" where
  "macd_rule a v =
     (if fl_greater (macd a) (macd_signal a) \<and> fl_greater (macd a) (Flt 0)
        then cast ''BUY'' 0.15 v
      else if fl_less (macd a) (macd_signal a) \<and> fl_less (macd a) (Flt 0)
        then cast ''SELL'' 0.15 v
      else v)"

definition bollinger_rule :: "indicator_args \<Rightarrow> votes \<Rightarrow> votes" where
  "bollinger_rule a v =
     (if fl_less (current_price a) (bb_lower a) then cast ''BUY'' 0.15 v
      else if fl_greater (current_price a) (bb_upper a) then cast ''SELL'' 0.15 v
      else v)"

definition stochastic_rule :: "indicator_args \<Rightarrow> votes \<Rightarrow> votes" where
  "stochastic_rule a v =
     (if fl_less (stoch_k a) (Flt 20) \<and> fl_less (stoch_d a) (Flt 20)
        then cast ''BUY'' 0.10 v
      else if fl_greater (stoch_k a) (Flt 80) \<and> fl_greater (stoch_d a) (Flt 80)
        then cast ''SELL'' 0.10 v
      else v)"

definition near :: "fl \<Rightarrow> fl \<Rightarrow> bool" where
  \<comment> \<open>\<^verbatim>\<open>abs(current_price - level) / current_price < 0.01\<close>\<close>
  "near price level = fl_less (fl_div (fl_abs (fl_sub price level)) price) (Flt 0.01)"

definition level_rule :: "indicator_args \<Rightarrow> votes \<Rightarrow> votes" where
  "level_rule a v =
     (if near (current_price a) (support a) then cast ''BUY'' 0.15 v
      else if near (current_price a) (resistance a) then cast ''SELL'' 0.15 v
      else v)"

definition collect_votes :: "indicator_args \<Rightarrow> votes" where
  "collect_votes a =
     level_rule a (stochastic_rule a (bollinger_rule a (macd_rule a
       (rsi_rule a (trend_rule a ([], []))))))"

text \<open>Lines 185 to 197: the action and the confidence, from the \<^verbatim>\<open>signals\<close> list alone.\<close>

definition decide :: "string list \<Rightarrow> string \<times> int" where
  "decide signals =
     (let buy_signals = int (count_list signals ''BUY'');
          sell_signals = int (count_list signals ''SELL'')
      in if buy_signals > sell_signals then (''BUY'', min 95 (60 + buy_signals * 8))
         else if sell_signals > buy_signals then (''SELL'', min 95 (60 + sell_signals * 8))
         else (''HOLD'', 50))"

text \<open>The two counts of lines 186 and 187, for the arguments of a call.\<close>

definition buy_votes :: "indicator_args \<Rightarrow> int" where
  "buy_votes a = int (count_list (fst (collect_votes a)) ''BUY'')"

definition sell_votes :: "indicator_args \<Rightarrow> int" where
  "sell_votes a = int (count_list (fst (collect_votes a)) ''SELL'')"

text \<open>
  Lines 199 to 210: take profit and stop loss before rounding, as a pair
  \<open>(take_profit, stop_loss)\<close>.
\<close>

definition price_targets :: "string \<Rightarrow> fl \<Rightarrow> fl \<Rightarrow> fl \<Rightarrow> fl \<times> fl" where
  "price_targets action entry support_level resistance_level =
     (if action = ''BUY''
        then (py_min resistance_level (fl_mul entry (Flt 1.02)), py_max support_level (fl_mul entry (Flt 0.985)))
      else if action = ''SELL''
        then (py_max support_level (fl_mul entry (Flt 0.98)), py_min resistance_level (fl_mul entry (Flt 1.015)))
      else (entry, entry))"

definition generate_signal_from_indicators :: "indicator_args \<Rightarrow> pydict" where
  "generate_signal_from_indicators a =
     (let signals = fst (collect_votes a);
          action = fst (decide signals);
          confidence = snd (decide signals);
          entry = current_price a;
          take_profit = fst (price_targets action entry (support a) (resistance a));
          stop_loss = snd (price_targets action entry (support a) (resistance a))
      in [(''action'', PStr action),
          (''entry'', PFloat (py_round entry 2)),
          (''take_profit'', PFloat (py_round take_profit 2)),
          (''stop_loss'', PFloat (py_round stop_loss 2)),
          (''confidence'', PStr (str_int confidence @ ''%'')),
          (''timeframe'', PStr (timeframe a)),
          (''indicators'', PDict
             [(''rsi'', PFloat (py_round (rsi a) 2)),
              (''macd'', PFloat (py_round (macd a) 4)),
              (''sma_20'', PFloat (py_round (sma_20 a) 2)),
              (''sma_50'', PFloat (py_round (sma_50 a) 2)),
              (''support'', PFloat (py_round (support a) 2)),
              (''resistance'', PFloat (py_round (resistance a) 2))]),
          (''analysis_type'', PStr ''technical_indicators'')])"

section \<open>Failures\<close>

text \<open>
  An exception, with the text \<^verbatim>\<open>str(e)\<close> gives. The two entry points catch every
  exception and turn it into an error signal.
\<close>

datatype exn = Exn string

definition generate_error_signal :: "string \<Rightarrow> pydict" where
  "generate_error_signal error_message =
     [(''error'', PBool True),
      (''message'', PStr error_message),
      (''action'', PStr ''HOLD''),
      (''entry'', PInt 0),
      (''take_profit'', PInt 0),
      (''stop_loss'', PInt 0),
      (''confidence'', PStr ''0%''),
      (''analysis_type'', PStr ''error'')]"

section \<open>The tabular path\<close>

subsection \<open>Frames\<close>

text \<open>
  A cell of the frame \<^verbatim>\<open>pd.read_csv\<close> returns is either one that \<^verbatim>\<open>pd.to_numeric\<close>
  reads as a number, with that number, or one it cannot read (an empty cell, a text
  that is no number), which \<^verbatim>\<open>errors='coerce'\<close> turns into NaN.
\<close>

datatype cell = Numeric real | NonNumeric string

fun to_numeric :: "cell \<Rightarrow> fl" where
  "to_numeric (Numeric x) = Flt x"
| "to_numeric (NonNumeric s) = NaN"

text \<open>
  A frame is the list of its columns, each a name with its cells, in the order of the
  file. All columns of a frame are equally long. Two columns may carry one name.
\<close>

type_synonym dataframe = "(string \<times> cell list) list"

text \<open>What reading the file gives: an exception of \<^verbatim>\<open>pd.read_csv\<close>, or a frame.\<close>

datatype csv_file = ReadFails string | Parsed dataframe

subsection \<open>Column names\<close>

text \<open>
  Column names are Python strings. A \<^typ>\<open>char\<close> stands for a code point below 256;
  names with other code points are outside the model. On these code points
  \<^verbatim>\<open>str.lower\<close> maps the letters A to Z and the capital letters from \<open>0xC0\<close> to \<open>0xDE\<close>
  (without the multiplication sign \<open>0xD7\<close>) to the code point 32 above, and
  \<^verbatim>\<open>str.strip\<close> removes, at both ends, the code points for which
  \<^verbatim>\<open>str.isspace\<close> holds: \<open>0x09\<close> to \<open>0x0D\<close>, \<open>0x1C\<close> to \<open>0x1F\<close>, the space,
  \<open>0x85\<close> and \<open>0xA0\<close>.
\<close>

definition upper_chars :: "char list" where
  "upper_chars =
     ''ABCDEFGHIJKLMNOPQRSTUVWXYZ'' @
     [CHR 0xC0, CHR 0xC1, CHR 0xC2, CHR 0xC3, CHR 0xC4, CHR 0xC5,
      CHR 0xC6, CHR 0xC7, CHR 0xC8, CHR 0xC9, CHR 0xCA, CHR 0xCB,
      CHR 0xCC, CHR 0xCD, CHR 0xCE, CHR 0xCF, CHR 0xD0, CHR 0xD1,
      CHR 0xD2, CHR 0xD3, CHR 0xD4, CHR 0xD5, CHR 0xD6, CHR 0xD8,
      CHR 0xD9, CHR 0xDA, CHR 0xDB, CHR 0xDC, CHR 0xDD, CHR 0xDE]"

definition lower_chars :: "char list" where
  "lower_chars =
     ''abcdefghijklmnopqrstuvwxyz'' @
     [CHR 0xE0, CHR 0xE1, CHR 0xE2, CHR 0xE3, CHR 0xE4, CHR 0xE5,
      CHR 0xE6, CHR 0xE7, CHR 0xE8, CHR 0xE9, CHR 0xEA, CHR 0xEB,
      CHR 0xEC, CHR 0xED, CHR 0xEE, CHR 0xEF, CHR 0xF0, CHR 0xF1,
      CHR 0xF2, CHR 0xF3, CHR 0xF4, CHR 0xF5, CHR 0xF6, CHR 0xF8,
      CHR 0xF9, CHR 0xFA, CHR 0xFB, CHR 0xFC, CHR 0xFD, CHR 0xFE]"

definition lower_char :: "char \<Rightarrow> char" where
  "lower_char c =
     (case map_of (zip upper_chars lower_chars) c of
        Some l \<Rightarrow> l
      | None \<Rightarrow> c)"

definition str_lower :: "string \<Rightarrow> string" where
  "str_lower s = map lower_char s"

definition is_space :: "char \<Rightarrow> bool" where
  "is_space c =
     (c \<in> set [CHR 0x09, CHR 0x0A, CHR 0x0B, CHR 0x0C, CHR 0x0D,
                CHR 0x1C, CHR 0x1D, CHR 0x1E, CHR 0x1F, CHR 0x20, CHR 0x85, CHR 0xA0])"

definition str_strip :: "string \<Rightarrow> string" where
  "str_strip s = rev (dropWhile is_space (rev (dropWhile is_space s)))"

definition column_mapping :: "(string \<times> string) list" where
  "column_mapping =
     [(''timestamp'', ''time''), (''datetime'', ''time''), (''date'', ''time''),
      (''o'', ''open''), (''h'', ''high''), (''l'', ''low''), (''c'', ''close''),
      (''v'', ''volume'')]"

definition rename :: "string \<Rightarrow> string \<Rightarrow> dataframe \<Rightarrow> dataframe" where
  "rename old_col new_col df = map (\<lambda>(n, cs). (if n = old_col then new_col else n, cs)) df"

fun rename_all :: "(string \<times> string) list \<Rightarrow> dataframe \<Rightarrow> dataframe" where
  "rename_all [] df = df"
| "rename_all ((old_col, new_col) # m) df =
     rename_all m (if old_col \<in> set (map fst df) then rename old_col new_col df else df)"

definition standardize :: "dataframe \<Rightarrow> dataframe" where
  \<comment> \<open>lines 23 to 33\<close>
  "standardize df =
     rename_all column_mapping (map (\<lambda>(n, cs). (str_strip (str_lower n), cs)) df)"

definition required_cols :: "string list" where
  "required_cols = [''open'', ''high'', ''low'', ''close'']"

subsection \<open>Cleaning\<close>

text \<open>
  \<^verbatim>\<open>df[col]\<close> is a series when one column carries the name. When several do it is a
  frame, and \<^verbatim>\<open>pd.to_numeric\<close> raises a TypeError on a frame. When none does it raises a
  KeyError; the check of line 37 excludes that.
\<close>

definition getitem :: "dataframe \<Rightarrow> string \<Rightarrow> exn + cell list" where
  "getitem df col =
     (case filter (\<lambda>(n, cs). n = col) df of
        [] \<Rightarrow> Inl (Exn (CHR 0x27 # col @ [CHR 0x27]))
      | [(n, cs)] \<Rightarrow> Inr cs
      | _ \<Rightarrow> Inl (Exn ''arg must be a list, tuple, 1-d array, or Series''))"

text \<open>A row of the cleaned frame: its four required fields, all numbers.\<close>

record candle =
  c_open :: real
  c_high :: real
  c_low :: real
  c_close :: real

fun candle_of :: "fl \<times> fl \<times> fl \<times> fl \<Rightarrow> candle option" where
  "candle_of (Flt a, Flt b, Flt c, Flt d) =
     Some \<lparr>c_open = a, c_high = b, c_low = c, c_close = d\<rparr>"
| "candle_of _ = None"

text \<open>
  Lines 41 to 45: the four columns are coerced in the order of \<^verbatim>\<open>required_cols\<close>, the
  first failure ending the loop, and the rows with a NaN in one of them are dropped.
  The other columns of the frame are not read again and are left out.
\<close>

definition clean :: "dataframe \<Rightarrow> exn + candle list" where
  "clean df =
     (case getitem df ''open'' of Inl e \<Rightarrow> Inl e | Inr os \<Rightarrow>
      case getitem df ''high'' of Inl e \<Rightarrow> Inl e | Inr hs \<Rightarrow>
      case getitem df ''low'' of Inl e \<Rightarrow> Inl e | Inr ls \<Rightarrow>
      case getitem df ''close'' of Inl e \<Rightarrow> Inl e | Inr cs \<Rightarrow>
        Inr (List.map_filter candle_of
               (zip (map to_numeric os) (zip (map to_numeric hs)
                 (zip (map to_numeric ls) (map to_numeric cs))))))"

subsection \<open>Indicators\<close>

text \<open>
  The indicator functions come from the \<^verbatim>\<open>ta\<close> package, which is not part of the
  repository. They are a parameter of the model: each field stands for one call of the
  package followed by \<^verbatim>\<open>.iloc[-1]\<close>, the last value of the series it returns, which is
  as long as the series it is given.
\<close>

record ta_lib =
  ta_sma :: "real list \<Rightarrow> nat \<Rightarrow> fl"
  ta_ema :: "real list \<Rightarrow> nat \<Rightarrow> fl"
  ta_rsi :: "real list \<Rightarrow> nat \<Rightarrow> fl"
  ta_macd :: "real list \<Rightarrow> fl"
  ta_macd_signal :: "real list \<Rightarrow> fl"
  ta_macd_diff :: "real list \<Rightarrow> fl"
  ta_bollinger_hband :: "real list \<Rightarrow> fl"
  ta_bollinger_lband :: "real list \<Rightarrow> fl"
  ta_bollinger_mavg :: "real list \<Rightarrow> fl"
  ta_stoch :: "real list \<Rightarrow> real list \<Rightarrow> real list \<Rightarrow> fl"
  ta_stoch_signal :: "real list \<Rightarrow> real list \<Rightarrow> real list \<Rightarrow> fl"

text \<open>\<^verbatim>\<open>Series.tail(n)\<close>, and \<^verbatim>\<open>min\<close> and \<^verbatim>\<open>max\<close> of a series, NaN when it is empty.\<close>

definition tail :: "nat \<Rightarrow> 'a list \<Rightarrow> 'a list" where
  "tail n xs = drop (length xs - n) xs"

fun series_min :: "real list \<Rightarrow> fl" where
  "series_min [] = NaN"
| "series_min (x # xs) = Flt (fold min xs x)"

fun series_max :: "real list \<Rightarrow> fl" where
  "series_max [] = NaN"
| "series_max (x # xs) = Flt (fold max xs x)"

definition find_support_resistance :: "candle list \<Rightarrow> fl \<times> fl" where
  \<comment> \<open>the rolling \<^verbatim>\<open>highs\<close> and \<^verbatim>\<open>lows\<close> of lines 232 and 233 are not used\<close>
  "find_support_resistance df =
     (series_min (map c_low (tail 20 df)), series_max (map c_high (tail 20 df)))"

text \<open>The arguments of the call of lines 116 to 123, for a frame with a last row.\<close>

definition indicator_inputs :: "ta_lib \<Rightarrow> candle list \<Rightarrow> string \<Rightarrow> indicator_args" where
  "indicator_inputs ta df tf =
     (let close = map c_close df; high = map c_high df; low = map c_low df
      in \<lparr>current_price = Flt (last close),
          sma_20 = ta_sma ta close 20,
          sma_50 = ta_sma ta close 50,
          ema_12 = ta_ema ta close 12,
          ema_26 = ta_ema ta close 26,
          rsi = ta_rsi ta close 14,
          macd = ta_macd ta close,
          macd_signal = ta_macd_signal ta close,
          bb_upper = ta_bollinger_hband ta close,
          bb_lower = ta_bollinger_lband ta close,
          bb_middle = ta_bollinger_mavg ta close,
          stoch_k = ta_stoch ta high low close,
          stoch_d = ta_stoch_signal ta high low close,
          support = fst (find_support_resistance df),
          resistance = snd (find_support_resistance df),
          timeframe = tf\<rparr>)"

definition calculate_indicators :: "ta_lib \<Rightarrow> candle list \<Rightarrow> string \<Rightarrow> exn + pydict" where
  \<comment> \<open>\<^verbatim>\<open>.iloc[-1]\<close> raises an IndexError on an empty series\<close>
  "calculate_indicators ta df tf =
     (if df = [] then Inl (Exn ''single positional indexer is out-of-bounds'')
      else Inr (generate_signal_from_indicators (indicator_inputs ta df tf)))"

subsection \<open>The entry point\<close>

definition all_required :: "dataframe \<Rightarrow> bool" where
  "all_required df = list_all (\<lambda>col. col \<in> set (map fst df)) required_cols"

definition analyze_csv_body :: "ta_lib \<Rightarrow> csv_file \<Rightarrow> string \<Rightarrow> exn + pydict" where
  "analyze_csv_body ta file tf =
     (case file of
        ReadFails msg \<Rightarrow> Inl (Exn msg)
      | Parsed raw \<Rightarrow>
          (let df = standardize raw
           in if \<not> all_required df
              then Inr (generate_error_signal
                     ''Invalid CSV format. Required columns: Open, High, Low, Close'')
              else (case clean df of
                      Inl e \<Rightarrow> Inl e
                    | Inr rows \<Rightarrow>
                        if length rows < 20
                        then Inr (generate_error_signal
                               ''Insufficient data for analysis (minimum 20 candles required)'')
                        else calculate_indicators ta rows tf)))"

definition analyze_csv_data :: "ta_lib \<Rightarrow> csv_file \<Rightarrow> string \<Rightarrow> pydict" where
  "analyze_csv_data ta file tf =
     (case analyze_csv_body ta file tf of
        Inl (Exn msg) \<Rightarrow> generate_error_signal (''CSV analysis failed: '' @ msg)
      | Inr signal \<Rightarrow> signal)"

section \<open>The image path\<close>

text \<open>
  A detected line is \<open>(x1, y1, x2, y2)\<close>. \<^verbatim>\<open>cv2.HoughLinesP\<close> returns \<^verbatim>\<open>None\<close> when it
  finds no line, and an array of lines otherwise.
\<close>

type_synonym line = "int \<times> int \<times> int \<times> int"

text \<open>\<^verbatim>\<open>np.arctan2(y, x)\<close>: the angle of the point \<open>(x, y)\<close>, in radians.\<close>

definition arctan2 :: "real \<Rightarrow> real \<Rightarrow> real" where
  "arctan2 y x =
     (if 0 < x then arctan (y / x)
      else if x < 0 then (if 0 \<le> y then arctan (y / x) + pi else arctan (y / x) - pi)
      else if 0 < y then pi / 2
      else if y < 0 then - (pi / 2)
      else 0)"

fun line_angle :: "line \<Rightarrow> real" where
  "line_angle (x1, y1, x2, y2) = arctan2 (of_int (y2 - y1)) (of_int (x2 - x1)) * 180 / pi"

text \<open>\<^verbatim>\<open>np.mean\<close> of a list of floats; of the empty list it is NaN, with a warning.\<close>

definition np_mean :: "real list \<Rightarrow> fl" where
  "np_mean xs = (if xs = [] then NaN else Flt (sum_list xs / real (length xs)))"

text \<open>Assignment to a key of a dictionary.\<close>

fun dict_set :: "string \<Rightarrow> pyval \<Rightarrow> pydict \<Rightarrow> pydict" where
  "dict_set k v [] = [(k, v)]"
| "dict_set k v ((k', v') # d) = (if k' = k then (k, v) # d else (k', v') # dict_set k v d)"

definition detect_chart_patterns :: "line list option \<Rightarrow> pydict" where
  "detect_chart_patterns lines =
     (let patterns =
            [(''trend_lines'', PInt (case lines of None \<Rightarrow> 0 | Some ls \<Rightarrow> int (length ls))),
             (''bullish_pattern'', PBool False),
             (''bearish_pattern'', PBool False)]
      in case lines of
           None \<Rightarrow> patterns
         | Some ls \<Rightarrow>
             (let avg_angle = np_mean (map line_angle ls)
              in if fl_greater avg_angle (Flt 10)
                   then dict_set ''bullish_pattern'' (PBool True) patterns
                 else if fl_less avg_angle (Flt (- 10))
                   then dict_set ''bearish_pattern'' (PBool True) patterns
                 else patterns))"

text \<open>The truth value of a Python value, and a dictionary read that raises a KeyError.\<close>

fun truthy :: "pyval \<Rightarrow> bool" where
  "truthy (PBool b) = b"
| "truthy (PInt i) = (i \<noteq> 0)"
| "truthy (PFloat x) = (x \<noteq> Flt 0)"
| "truthy (PStr s) = (s \<noteq> [])"
| "truthy (PDict d) = (d \<noteq> [])"

definition subscript :: "pydict \<Rightarrow> string \<Rightarrow> exn + pyval" where
  "subscript d k =
     (case map_of d k of None \<Rightarrow> Inl (Exn (CHR 0x27 # k @ [CHR 0x27])) | Some v \<Rightarrow> Inr v)"

text \<open>
  \<^verbatim>\<open>np.random.uniform(low, high)\<close> draws \<open>u\<close> from the half-open unit interval and
  returns \<open>low + (high - low) * u\<close>. The draw is an argument of the model.
\<close>

definition uniform :: "real \<Rightarrow> real \<Rightarrow> real \<Rightarrow> real" where
  "uniform low high u = low + (high - low) * u"

text \<open>Lines 279 to 287: the action and the confidence, from the flags.\<close>

definition image_decide :: "pydict \<Rightarrow> exn + string \<times> int" where
  "image_decide patterns =
     (case subscript patterns ''bullish_pattern'' of
        Inl e \<Rightarrow> Inl e
      | Inr bullish \<Rightarrow>
          if truthy bullish then Inr (''BUY'', 75)
          else (case subscript patterns ''bearish_pattern'' of
                  Inl e \<Rightarrow> Inl e
                | Inr bearish \<Rightarrow>
                    if truthy bearish then Inr (''SELL'', 75) else Inr (''HOLD'', 60)))"

text \<open>Lines 292 to 303: \<open>(entry, take_profit, stop_loss)\<close> before rounding.\<close>

definition image_levels :: "string \<Rightarrow> real \<Rightarrow> real \<times> real \<times> real" where
  "image_levels action base_price =
     (if action = ''BUY'' then (base_price, base_price * 1.025, base_price * 0.985)
      else if action = ''SELL'' then (base_price, base_price * 0.975, base_price * 1.015)
      else (base_price, base_price, base_price))"

definition generate_image_based_signal :: "pydict \<Rightarrow> string \<Rightarrow> real \<Rightarrow> exn + pydict" where
  "generate_image_based_signal patterns tf u =
     (case image_decide patterns of
        Inl e \<Rightarrow> Inl e
      | Inr (action, confidence) \<Rightarrow>
          (let base_price = uniform 1800 2100 u;
               (entry, take_profit, stop_loss) = image_levels action base_price
           in Inr [(''action'', PStr action),
                   (''entry'', PFloat (py_round (Flt entry) 2)),
                   (''take_profit'', PFloat (py_round (Flt take_profit) 2)),
                   (''stop_loss'', PFloat (py_round (Flt stop_loss) 2)),
                   (''confidence'', PStr (str_int confidence @ ''%'')),
                   (''timeframe'', PStr tf),
                   (''patterns'', PDict patterns),
                   (''analysis_type'', PStr ''chart_pattern'')]))"

text \<open>
  What the calls of OpenCV give for a file: \<^verbatim>\<open>cv2.imread\<close> returns \<^verbatim>\<open>None\<close>, or one of
  the calls raises, or the image is decoded and \<^verbatim>\<open>cv2.HoughLinesP\<close> returns its lines.
\<close>

datatype chart_file = ImreadNone | CvRaises string | Decoded "line list option"

definition analyze_chart_image :: "chart_file \<Rightarrow> string \<Rightarrow> real \<Rightarrow> pydict" where
  "analyze_chart_image file tf u =
     (case file of
        ImreadNone \<Rightarrow> generate_error_signal ''Could not load image file''
      | CvRaises msg \<Rightarrow> generate_error_signal (''Image analysis failed: '' @ msg)
      | Decoded lines \<Rightarrow>
          (case generate_image_based_signal (detect_chart_patterns lines) tf u of
             Inl (Exn msg) \<Rightarrow> generate_error_signal (''Image analysis failed: '' @ msg)
           | Inr signal \<Rightarrow> signal))"

section \<open>A reference indicator library\<close>

text \<open>
  Modelled from the spec: the indicator functions of the \<^verbatim>\<open>ta\<close> package, which the
  repository calls and does not contain, as section 4.1 of the specification describes
  them. Every value uses trailing history only, and is NaN while its window is not
  filled. The theorems below hold for every library; this one shows that their
  hypotheses on the library can be met.
\<close>

definition sma :: "real list \<Rightarrow> nat \<Rightarrow> fl" where
  \<comment> \<open>simple moving average over the last \<open>w\<close> values\<close>
  "sma xs w = (if w = 0 \<or> length xs < w then NaN else Flt (sum_list (tail w xs) / real w))"

fun ewm :: "real \<Rightarrow> real list \<Rightarrow> real" where
  \<comment> \<open>exponentially weighted mean in its recursive form, started at the first value\<close>
  "ewm \<alpha> [] = 0"
| "ewm \<alpha> (x # xs) = fold (\<lambda>x y. (1 - \<alpha>) * y + \<alpha> * x) xs x"

definition ema :: "real list \<Rightarrow> nat \<Rightarrow> fl" where
  "ema xs w = (if w = 0 \<or> length xs < w then NaN else Flt (ewm (2 / (real w + 1)) xs))"

definition wilder_rsi :: "real list \<Rightarrow> nat \<Rightarrow> fl" where
  "wilder_rsi xs w =
     (if w = 0 \<or> length xs < w then NaN
      else (let diffs = map2 (\<lambda>a b. b - a) xs (tl xs);
                up = 0 # map (\<lambda>d. max d 0) diffs;
                dn = 0 # map (\<lambda>d. max (- d) 0) diffs;
                gain = ewm (1 / real w) up;
                loss = ewm (1 / real w) dn
            in if loss = 0 then Flt 100 else Flt (100 - 100 / (1 + gain / loss))))"

definition prefixes :: "'a list \<Rightarrow> 'a list list" where
  "prefixes xs = map (\<lambda>n. take (Suc n) xs) [0..<length xs]"

definition numbers :: "fl list \<Rightarrow> real list" where
  "numbers ys = List.map_filter (\<lambda>y. case y of Flt x \<Rightarrow> Some x | NaN \<Rightarrow> None) ys"

definition macd_line :: "real list \<Rightarrow> fl" where
  "macd_line xs = fl_sub (ema xs 12) (ema xs 26)"

definition macd_signal_line :: "real list \<Rightarrow> fl" where
  "macd_signal_line xs = ema (numbers (map macd_line (prefixes xs))) 9"

definition macd_histogram :: "real list \<Rightarrow> fl" where
  "macd_histogram xs = fl_sub (macd_line xs) (macd_signal_line xs)"

definition bollinger :: "real \<Rightarrow> real list \<Rightarrow> fl" where
  \<comment> \<open>the mean of the last 20 values plus \<open>k\<close> standard deviations\<close>
  "bollinger k xs =
     (if length xs < 20 then NaN
      else (let win = tail 20 xs;
                m = sum_list win / 20;
                sd = sqrt (sum_list (map (\<lambda>x. (x - m)\<^sup>2) win) / 20)
            in Flt (m + k * sd)))"

definition stochastic_k :: "real list \<Rightarrow> real list \<Rightarrow> real list \<Rightarrow> fl" where
  "stochastic_k hs ls cs =
     (if length cs < 14 then NaN
      else (let smin = series_min (tail 14 ls); smax = series_max (tail 14 hs)
            in fl_mul (Flt 100) (fl_div (fl_sub (Flt (last cs)) smin) (fl_sub smax smin))))"

fun fl_add :: "fl \<Rightarrow> fl \<Rightarrow> fl" where
  "fl_add (Flt x) (Flt y) = Flt (x + y)"
| "fl_add _ _ = NaN"

definition stochastic_d :: "real list \<Rightarrow> real list \<Rightarrow> real list \<Rightarrow> fl" where
  "stochastic_d hs ls cs =
     (let n = length cs; k = (\<lambda>i. stochastic_k (take i hs) (take i ls) (take i cs))
      in if n < 3 then NaN
         else fl_div (fl_add (fl_add (k (n - 2)) (k (n - 1))) (k n)) (Flt 3))"

definition ta_reference :: ta_lib where
  "ta_reference =
     \<lparr>ta_sma = sma, ta_ema = ema, ta_rsi = wilder_rsi,
      ta_macd = macd_line, ta_macd_signal = macd_signal_line, ta_macd_diff = macd_histogram,
      ta_bollinger_hband = bollinger 2, ta_bollinger_lband = bollinger (- 2),
      ta_bollinger_mavg = (\<lambda>xs. sma xs 20),
      ta_stoch = stochastic_k, ta_stoch_signal = stochastic_d\<rparr>"

section \<open>Valid rows, in the words of the specification\<close>

text \<open>
  Section 4.1 of the specification counts the rows that remain once the required columns
  are coerced to numbers and the rows with a missing required field are dropped. The
  count below follows those words for every frame, also for one where a required name is
  carried by several columns: a row is valid when each of its cells in a column with a
  required name is a number. It is compared with \<^const>\<open>clean\<close> in the lemma
  \<open>clean_length_valid_rows\<close>.
\<close>

definition valid_rows :: "dataframe \<Rightarrow> nat" where
  "valid_rows df =
     (let cols = map snd (filter (\<lambda>(n, cs). n \<in> set required_cols) df);
          n = (case cols of [] \<Rightarrow> 0 | c # _ \<Rightarrow> length c)
      in length (filter (\<lambda>i. list_all (\<lambda>col. to_numeric (col ! i) \<noteq> NaN) cols) [0..<n]))"

section \<open>Example inputs\<close>

text \<open>
  The example of section 8 of the specification: the trend rule and the RSI rule vote
  BUY, no other rule votes.
\<close>

definition trend_and_rsi :: indicator_args where
  "trend_and_rsi =
     \<lparr>current_price = Flt 100, sma_20 = Flt 101, sma_50 = Flt 100, ema_12 = Flt 101,
      ema_26 = Flt 100, rsi = Flt 25, macd = Flt 1, macd_signal = Flt 2,
      bb_upper = Flt 105, bb_lower = Flt 95, bb_middle = Flt 100, stoch_k = Flt 50,
      stoch_d = Flt 50, support = Flt 90, resistance = Flt 110, timeframe = ''1h''\<rparr>"

text \<open>One BUY vote, one SELL vote, and no vote.\<close>

definition oversold :: indicator_args where
  "oversold = trend_and_rsi\<lparr>sma_20 := Flt 100\<rparr>"

definition overbought :: indicator_args where
  "overbought = trend_and_rsi\<lparr>sma_20 := Flt 100, rsi := Flt 75\<rparr>"

definition quiet :: indicator_args where
  "quiet = trend_and_rsi\<lparr>sma_20 := Flt 100, rsi := Flt 50\<rparr>"

text \<open>
  The BUY and the SELL input with a support of 99 and a resistance of 101, which lie
  inside the band from 98.5 to 102 and from 98 to 101.5 around the entry of 100.
\<close>

definition tight_buy :: indicator_args where
  "tight_buy = trend_and_rsi\<lparr>support := Flt 99, resistance := Flt 101\<rparr>"

definition tight_sell :: indicator_args where
  "tight_sell = overbought\<lparr>support := Flt 99, resistance := Flt 101\<rparr>"

text \<open>
  An asset quoted at 0.08 after fewer than 26 candles, oversold; and a last candle that
  closes on the lowest low of the last 20.
\<close>

definition cheap_asset :: indicator_args where
  "cheap_asset =
     \<lparr>current_price = Flt 0.08, sma_20 = Flt 0.08, sma_50 = NaN, ema_12 = Flt 0.08,
      ema_26 = NaN, rsi = Flt 25, macd = NaN, macd_signal = NaN,
      bb_upper = Flt 0.09, bb_lower = Flt 0.07, bb_middle = Flt 0.08, stoch_k = Flt 50,
      stoch_d = Flt 50, support = Flt 0.07, resistance = Flt 0.09, timeframe = ''1h''\<rparr>"

definition close_at_support :: indicator_args where
  "close_at_support =
     \<lparr>current_price = Flt 100, sma_20 = Flt 103, sma_50 = NaN, ema_12 = Flt 102,
      ema_26 = NaN, rsi = Flt 40, macd = NaN, macd_signal = NaN,
      bb_upper = Flt 108, bb_lower = Flt 98, bb_middle = Flt 103, stoch_k = Flt 0,
      stoch_d = Flt 25, support = Flt 100, resistance = Flt 110, timeframe = ''1h''\<rparr>"

text \<open>
  Frames of 20 rows: one with every required column under a name that needs
  normalising (capitals, a synonym, and a space, a unit separator and a no-break space to
  strip), the same with a second column that is renamed to \<^verbatim>\<open>open\<close>, one without a
  \<^verbatim>\<open>low\<close> column, and one whose first row has no number in \<^verbatim>\<open>open\<close>.
\<close>

definition flat_frame :: dataframe where
  "flat_frame =
     [(''Date'', replicate 20 (NonNumeric ''2024-01-01'')),
      ('' Open'', replicate 20 (Numeric 100)),
      (''HIGH'' @ [CHR 0x1F], replicate 20 (Numeric 101)),
      (''l'' @ [CHR 0xA0], replicate 20 (Numeric 99)),
      (''Close '', replicate 20 (Numeric 100))]"

definition twice_open :: dataframe where
  "twice_open = (''o'', replicate 20 (Numeric 100)) # flat_frame"

definition no_low_frame :: dataframe where
  "no_low_frame =
     [(''Open'', replicate 20 (Numeric 100)),
      (''High'', replicate 20 (Numeric 101)),
      (''Close'', replicate 20 (Numeric 100))]"

definition short_frame :: dataframe where
  "short_frame =
     [(''open'', NonNumeric ''n/a'' # replicate 19 (Numeric 100)),
      (''high'', Numeric 101 # replicate 19 (Numeric 101)),
      (''low'', Numeric 99 # replicate 19 (Numeric 99)),
      (''close'', Numeric 100 # replicate 19 (Numeric 100))]"

definition flat_candle :: candle where
  "flat_candle = \<lparr>c_open = 100, c_high = 101, c_low = 99, c_close = 100\<rparr>"

section \<open>Properties of the indicator scoring\<close>

lemmas rule_defs = trend_rule_def rsi_rule_def macd_rule_def bollinger_rule_def
  stochastic_rule_def level_rule_def near_def cast_def fl_greater_def

subsection \<open>Reading the returned signal\<close>

lemma signal_action:
  "map_of (generate_signal_from_indicators a) ''action'' =
     Some (PStr (fst (decide (fst (collect_votes a)))))"
  by (simp add: generate_signal_from_indicators_def Let_def)

lemma signal_confidence:
  "map_of (generate_signal_from_indicators a) ''confidence'' =
     Some (PStr (str_int (snd (decide (fst (collect_votes a)))) @ ''%''))"
  by (simp add: generate_signal_from_indicators_def Let_def)

lemma signal_entry:
  "map_of (generate_signal_from_indicators a) ''entry'' =
     Some (PFloat (py_round (current_price a) 2))"
  by (simp add: generate_signal_from_indicators_def Let_def)

lemma signal_take_profit:
  "map_of (generate_signal_from_indicators a) ''take_profit'' =
     Some (PFloat (py_round (fst (price_targets (fst (decide (fst (collect_votes a))))
       (current_price a) (support a) (resistance a))) 2))"
  by (simp add: generate_signal_from_indicators_def Let_def)

lemma signal_stop_loss:
  "map_of (generate_signal_from_indicators a) ''stop_loss'' =
     Some (PFloat (py_round (snd (price_targets (fst (decide (fst (collect_votes a))))
       (current_price a) (support a) (resistance a))) 2))"
  by (simp add: generate_signal_from_indicators_def Let_def)

lemma signal_analysis_type:
  "map_of (generate_signal_from_indicators a) ''analysis_type'' =
     Some (PStr ''technical_indicators'')"
  by (simp add: generate_signal_from_indicators_def Let_def)

lemma signal_no_error_key: "map_of (generate_signal_from_indicators a) ''error'' = None"
  by (simp add: generate_signal_from_indicators_def Let_def)

lemma signal_sma_50:
  "\<exists>d. map_of (generate_signal_from_indicators a) ''indicators'' = Some (PDict d) \<and>
       map_of d ''sma_50'' = Some (PFloat (py_round (sma_50 a) 2))"
  by (simp add: generate_signal_from_indicators_def Let_def)

lemma decide_votes:
  "decide (fst (collect_votes a)) =
     (if sell_votes a < buy_votes a then (''BUY'', min 95 (60 + 8 * buy_votes a))
      else if buy_votes a < sell_votes a then (''SELL'', min 95 (60 + 8 * sell_votes a))
      else (''HOLD'', 50))"
  by (simp add: decide_def buy_votes_def sell_votes_def Let_def mult.commute)

lemma signal_action_buy:
  "map_of (generate_signal_from_indicators a) ''action'' = Some (PStr ''BUY'') \<longleftrightarrow>
     sell_votes a < buy_votes a"
  by (simp add: signal_action decide_votes)

lemma signal_confidence_votes:
  "map_of (generate_signal_from_indicators a) ''confidence'' =
     Some (PStr (str_int (if sell_votes a < buy_votes a then min 95 (60 + 8 * buy_votes a)
                          else if buy_votes a < sell_votes a then min 95 (60 + 8 * sell_votes a)
                          else 50) @ ''%''))"
  by (simp add: signal_confidence decide_votes)

lemma str_int_examples:
  "str_int 60 = ''60''" "str_int 68 = ''68''" "str_int 75 = ''75''" "str_int 76 = ''76''"
  by (simp_all add: str_int_def str_nat.simps digit_char_def)

subsection \<open>The example inputs\<close>

lemma trend_and_rsi_votes: "fst (collect_votes trend_and_rsi) = [''BUY'', ''BUY'']"
  by (simp add: trend_and_rsi_def collect_votes_def rule_defs)

lemma oversold_votes: "fst (collect_votes oversold) = [''BUY'']"
  by (simp add: oversold_def trend_and_rsi_def collect_votes_def rule_defs)

lemma overbought_votes: "fst (collect_votes overbought) = [''SELL'']"
  by (simp add: overbought_def trend_and_rsi_def collect_votes_def rule_defs)

lemma quiet_votes: "fst (collect_votes quiet) = []"
  by (simp add: quiet_def trend_and_rsi_def collect_votes_def rule_defs)

lemma cheap_asset_votes: "fst (collect_votes cheap_asset) = [''BUY'']"
  by (simp add: cheap_asset_def collect_votes_def rule_defs)

lemma close_at_support_votes: "fst (collect_votes close_at_support) = [''BUY'']"
  by (simp add: close_at_support_def collect_votes_def rule_defs)

lemma action_trend_and_rsi:
  "map_of (generate_signal_from_indicators trend_and_rsi) ''action'' = Some (PStr ''BUY'')"
  by (simp add: signal_action trend_and_rsi_votes decide_def)

lemma action_oversold:
  "map_of (generate_signal_from_indicators oversold) ''action'' = Some (PStr ''BUY'')"
  by (simp add: signal_action oversold_votes decide_def)

lemma action_overbought:
  "map_of (generate_signal_from_indicators overbought) ''action'' = Some (PStr ''SELL'')"
  by (simp add: signal_action overbought_votes decide_def)

lemma action_quiet:
  "map_of (generate_signal_from_indicators quiet) ''action'' = Some (PStr ''HOLD'')"
  by (simp add: signal_action quiet_votes decide_def)

lemma levels_trend_and_rsi:
  "current_price trend_and_rsi = Flt 100" "support trend_and_rsi = Flt 90"
  "resistance trend_and_rsi = Flt 110"
  by (simp_all add: trend_and_rsi_def)

lemma levels_overbought:
  "current_price overbought = Flt 100" "support overbought = Flt 90"
  "resistance overbought = Flt 110"
  by (simp_all add: overbought_def trend_and_rsi_def)

lemma levels_quiet:
  "current_price quiet = Flt 100" "support quiet = Flt 90" "resistance quiet = Flt 110"
  by (simp_all add: quiet_def trend_and_rsi_def)

lemma tight_buy_votes: "fst (collect_votes tight_buy) = [''BUY'', ''BUY'']"
  by (simp add: tight_buy_def trend_and_rsi_def collect_votes_def rule_defs)

lemma tight_sell_votes: "fst (collect_votes tight_sell) = [''SELL'']"
  by (simp add: tight_sell_def overbought_def trend_and_rsi_def collect_votes_def rule_defs)

lemma action_tight_buy:
  "map_of (generate_signal_from_indicators tight_buy) ''action'' = Some (PStr ''BUY'')"
  by (simp add: signal_action tight_buy_votes decide_def)

lemma action_tight_sell:
  "map_of (generate_signal_from_indicators tight_sell) ''action'' = Some (PStr ''SELL'')"
  by (simp add: signal_action tight_sell_votes decide_def)

lemma levels_tight_buy:
  "current_price tight_buy = Flt 100" "support tight_buy = Flt 99"
  "resistance tight_buy = Flt 101"
  by (simp_all add: tight_buy_def trend_and_rsi_def)

lemma levels_tight_sell:
  "current_price tight_sell = Flt 100" "support tight_sell = Flt 99"
  "resistance tight_sell = Flt 101"
  by (simp_all add: tight_sell_def overbought_def trend_and_rsi_def)

subsection \<open>Action and confidence\<close>

text \<open>
  Claim C1. The action and the confidence of an indicator signal are decided by the two
  vote counts alone: BUY when there are more BUY votes than SELL votes, SELL when there
  are more SELL votes, HOLD otherwise; the confidence is \<open>min 95 (60 + 8 * n)\<close> for the
  \<open>n\<close> votes of the winning side, rendered with a percent sign, and \<open>50%\<close> for HOLD.
  The weights in \<^verbatim>\<open>confidence_factors\<close> do not enter. Two BUY votes against no SELL
  vote give BUY with \<open>76%\<close>.
\<close>

theorem vote_counts_decide:
  "map_of (generate_signal_from_indicators a) ''action'' =
     Some (PStr (if sell_votes a < buy_votes a then ''BUY''
                 else if buy_votes a < sell_votes a then ''SELL'' else ''HOLD'')) \<and>
   map_of (generate_signal_from_indicators a) ''confidence'' =
     Some (PStr (str_int (if sell_votes a < buy_votes a then min 95 (60 + 8 * buy_votes a)
                          else if buy_votes a < sell_votes a then min 95 (60 + 8 * sell_votes a)
                          else 50) @ ''%'')) \<and>
   (buy_votes a = 2 \<and> sell_votes a = 0 \<longrightarrow>
      map_of (generate_signal_from_indicators a) ''action'' = Some (PStr ''BUY'') \<and>
      map_of (generate_signal_from_indicators a) ''confidence'' = Some (PStr ''76%''))"
  by (simp add: signal_action signal_confidence decide_votes str_int_examples)

theorem vote_counts_decide_witness:
  "buy_votes trend_and_rsi = 2 \<and> sell_votes trend_and_rsi = 0 \<and>
   map_of (generate_signal_from_indicators trend_and_rsi) ''action'' = Some (PStr ''BUY'') \<and>
   map_of (generate_signal_from_indicators trend_and_rsi) ''confidence'' = Some (PStr ''76%'')"
  using vote_counts_decide [of trend_and_rsi]
  by (simp add: buy_votes_def sell_votes_def trend_and_rsi_votes str_int_examples)

text \<open>
  Claim C6. Of two inputs with the same number of SELL votes that both give BUY, the one
  with more BUY votes has a confidence at least as high.
\<close>

theorem confidence_monotone_in_buy_votes:
  assumes "sell_votes a1 = sell_votes a2"
    and "buy_votes a1 < buy_votes a2"
    and "map_of (generate_signal_from_indicators a1) ''action'' = Some (PStr ''BUY'')"
    and "map_of (generate_signal_from_indicators a2) ''action'' = Some (PStr ''BUY'')"
  shows
  "map_of (generate_signal_from_indicators a1) ''confidence'' =
     Some (PStr (str_int (min 95 (60 + 8 * buy_votes a1)) @ ''%'')) \<and>
   map_of (generate_signal_from_indicators a2) ''confidence'' =
     Some (PStr (str_int (min 95 (60 + 8 * buy_votes a2)) @ ''%'')) \<and>
   min 95 (60 + 8 * buy_votes a1) \<le> min 95 (60 + 8 * buy_votes a2)"
proof -
  from assms(3) have b1: "sell_votes a1 < buy_votes a1" by (simp add: signal_action_buy)
  from assms(4) have b2: "sell_votes a2 < buy_votes a2" by (simp add: signal_action_buy)
  have "map_of (generate_signal_from_indicators a1) ''confidence'' =
          Some (PStr (str_int (min 95 (60 + 8 * buy_votes a1)) @ ''%''))"
    using b1 by (simp add: signal_confidence_votes)
  moreover have "map_of (generate_signal_from_indicators a2) ''confidence'' =
          Some (PStr (str_int (min 95 (60 + 8 * buy_votes a2)) @ ''%''))"
    using b2 by (simp add: signal_confidence_votes)
  moreover have "min 95 (60 + 8 * buy_votes a1) \<le> min 95 (60 + 8 * buy_votes a2)"
    using assms(2) by simp
  ultimately show ?thesis by blast
qed

theorem confidence_monotone_in_buy_votes_witness:
  "sell_votes oversold = sell_votes trend_and_rsi \<and>
   buy_votes oversold < buy_votes trend_and_rsi \<and>
   map_of (generate_signal_from_indicators oversold) ''confidence'' = Some (PStr ''68%'') \<and>
   map_of (generate_signal_from_indicators trend_and_rsi) ''confidence'' = Some (PStr ''76%'')"
proof -
  have v: "sell_votes oversold = sell_votes trend_and_rsi"
    "buy_votes oversold < buy_votes trend_and_rsi"
    by (simp_all add: buy_votes_def sell_votes_def oversold_votes trend_and_rsi_votes)
  from confidence_monotone_in_buy_votes [OF v action_oversold action_trend_and_rsi] v
  show ?thesis
    by (simp add: buy_votes_def oversold_votes trend_and_rsi_votes str_int_examples)
qed

subsection \<open>Rounding\<close>

lemma rint_floor_bounds: "\<lfloor>x\<rfloor> \<le> rint x \<and> rint x \<le> \<lfloor>x\<rfloor> + 1"
  by (simp add: rint_def Let_def)

lemma rint_mono:
  assumes "x \<le> y"
  shows "rint x \<le> rint y"
proof (cases "\<lfloor>x\<rfloor> < \<lfloor>y\<rfloor>")
  case True
  have "rint x \<le> \<lfloor>x\<rfloor> + 1" using rint_floor_bounds by blast
  also have "\<dots> \<le> \<lfloor>y\<rfloor>" using True by simp
  also have "\<dots> \<le> rint y" using rint_floor_bounds by blast
  finally show ?thesis .
next
  case False
  moreover have "\<lfloor>x\<rfloor> \<le> \<lfloor>y\<rfloor>" using assms by (rule floor_mono)
  ultimately have "\<lfloor>x\<rfloor> = \<lfloor>y\<rfloor>" by simp
  then show ?thesis using assms by (auto simp: rint_def Let_def)
qed

lemma rint_close: "\<bar>of_int (rint x) - x\<bar> \<le> 1 / 2"
  by (auto simp: rint_def Let_def abs_if; linarith)

lemma round_to_mono: "x \<le> y \<Longrightarrow> round_to n x \<le> round_to n y"
  unfolding round_to_def
  by (intro divide_right_mono iffD2 [OF of_int_le_iff] rint_mono mult_right_mono) simp_all

lemma round_to_2_grid: "\<exists>k::int. round_to 2 x = of_int k / 100"
  by (auto simp: round_to_def)

lemma round_to_2_close: "\<bar>round_to 2 x - x\<bar> \<le> 1 / 200"
proof -
  have "\<bar>of_int (rint (x * 100)) - x * 100\<bar> \<le> 1 / 2" by (rule rint_close)
  then have "\<bar>(of_int (rint (x * 100)) - x * 100) / 100\<bar> \<le> (1 / 2) / 100"
    by (simp only: abs_divide) (simp add: divide_right_mono)
  then show ?thesis by (simp add: round_to_def diff_divide_distrib)
qed

lemma round_to_examples:
  "round_to 2 (197 / 2) = 197 / 2" "round_to 2 100 = 100" "round_to 2 102 = 102"
  "round_to 2 98 = 98" "round_to 2 (203 / 2) = 203 / 2" "round_to 2 101 = 101"
  "round_to 2 99 = 99"
  by (simp_all add: round_to_def rint_def)

text \<open>On numbers, Python's \<^verbatim>\<open>min\<close> and \<^verbatim>\<open>max\<close> are the minimum and the maximum.\<close>

lemma py_min_Flt: "py_min (Flt x) (Flt y) = Flt (min x y)"
  by (simp add: py_min_def min_def)

lemma py_max_Flt: "py_max (Flt x) (Flt y) = Flt (max x y)"
  by (simp add: py_max_def fl_greater_def max_def)

subsection \<open>Price targets\<close>

text \<open>
  Claim C2. The entry of an indicator signal is the current close price. For BUY, take
  profit is \<^verbatim>\<open>min(resistance, entry * 1.02)\<close> and stop loss is
  \<^verbatim>\<open>max(support, entry * 0.985)\<close>; for SELL, take profit is
  \<^verbatim>\<open>max(support, entry * 0.98)\<close> and stop loss is \<^verbatim>\<open>min(resistance, entry * 1.015)\<close>;
  for HOLD both are the entry. This holds with Python's \<^verbatim>\<open>min\<close> and \<^verbatim>\<open>max\<close> for
  every input, and when entry, support and resistance are numbers these are the least and
  the greatest of the two numbers. The three prices are returned rounded to two decimal
  places: a multiple of one hundredth, at most half a hundredth away.
\<close>

theorem targets_from_entry:
  fixes a :: indicator_args
  defines "signal \<equiv> generate_signal_from_indicators a"
    and "entry \<equiv> current_price a"
  shows
  "map_of signal ''entry'' = Some (PFloat (py_round entry 2)) \<and>
   (map_of signal ''action'' = Some (PStr ''BUY'') \<longrightarrow>
      map_of signal ''take_profit'' =
        Some (PFloat (py_round (py_min (resistance a) (fl_mul entry (Flt 1.02))) 2)) \<and>
      map_of signal ''stop_loss'' =
        Some (PFloat (py_round (py_max (support a) (fl_mul entry (Flt 0.985))) 2))) \<and>
   (map_of signal ''action'' = Some (PStr ''SELL'') \<longrightarrow>
      map_of signal ''take_profit'' =
        Some (PFloat (py_round (py_max (support a) (fl_mul entry (Flt 0.98))) 2)) \<and>
      map_of signal ''stop_loss'' =
        Some (PFloat (py_round (py_min (resistance a) (fl_mul entry (Flt 1.015))) 2))) \<and>
   (map_of signal ''action'' = Some (PStr ''HOLD'') \<longrightarrow>
      map_of signal ''take_profit'' = Some (PFloat (py_round entry 2)) \<and>
      map_of signal ''stop_loss'' = Some (PFloat (py_round entry 2))) \<and>
   (\<forall>p s r. entry = Flt p \<and> support a = Flt s \<and> resistance a = Flt r \<longrightarrow>
      map_of signal ''entry'' = Some (PFloat (Flt (round_to 2 p))) \<and>
      (map_of signal ''action'' = Some (PStr ''BUY'') \<longrightarrow>
         map_of signal ''take_profit'' = Some (PFloat (Flt (round_to 2 (min r (p * 1.02))))) \<and>
         map_of signal ''stop_loss'' = Some (PFloat (Flt (round_to 2 (max s (p * 0.985)))))) \<and>
      (map_of signal ''action'' = Some (PStr ''SELL'') \<longrightarrow>
         map_of signal ''take_profit'' = Some (PFloat (Flt (round_to 2 (max s (p * 0.98))))) \<and>
         map_of signal ''stop_loss'' = Some (PFloat (Flt (round_to 2 (min r (p * 1.015)))))) \<and>
      (map_of signal ''action'' = Some (PStr ''HOLD'') \<longrightarrow>
         map_of signal ''take_profit'' = Some (PFloat (Flt (round_to 2 p))) \<and>
         map_of signal ''stop_loss'' = Some (PFloat (Flt (round_to 2 p))))) \<and>
   (\<forall>x. \<exists>k::int. round_to 2 x = of_int k / 100 \<and> \<bar>of_int k / 100 - x\<bar> \<le> 1 / 200)"
proof -
  have grid: "\<exists>k::int. round_to 2 x = of_int k / 100 \<and> \<bar>of_int k / 100 - x\<bar> \<le> 1 / 200" for x
  proof -
    obtain k :: int where "round_to 2 x = of_int k / 100"
      using round_to_2_grid by blast
    with round_to_2_close [of x] show ?thesis by auto
  qed
  have general: "map_of signal ''entry'' = Some (PFloat (py_round entry 2)) \<and>
   (map_of signal ''action'' = Some (PStr ''BUY'') \<longrightarrow>
      map_of signal ''take_profit'' =
        Some (PFloat (py_round (py_min (resistance a) (fl_mul entry (Flt 1.02))) 2)) \<and>
      map_of signal ''stop_loss'' =
        Some (PFloat (py_round (py_max (support a) (fl_mul entry (Flt 0.985))) 2))) \<and>
   (map_of signal ''action'' = Some (PStr ''SELL'') \<longrightarrow>
      map_of signal ''take_profit'' =
        Some (PFloat (py_round (py_max (support a) (fl_mul entry (Flt 0.98))) 2)) \<and>
      map_of signal ''stop_loss'' =
        Some (PFloat (py_round (py_min (resistance a) (fl_mul entry (Flt 1.015))) 2))) \<and>
   (map_of signal ''action'' = Some (PStr ''HOLD'') \<longrightarrow>
      map_of signal ''take_profit'' = Some (PFloat (py_round entry 2)) \<and>
      map_of signal ''stop_loss'' = Some (PFloat (py_round entry 2)))"
    unfolding signal_def entry_def
    by (simp add: signal_entry signal_action signal_take_profit signal_stop_loss
        price_targets_def)
  then have numeric: "\<forall>p s r. entry = Flt p \<and> support a = Flt s \<and> resistance a = Flt r \<longrightarrow>
      map_of signal ''entry'' = Some (PFloat (Flt (round_to 2 p))) \<and>
      (map_of signal ''action'' = Some (PStr ''BUY'') \<longrightarrow>
         map_of signal ''take_profit'' = Some (PFloat (Flt (round_to 2 (min r (p * 1.02))))) \<and>
         map_of signal ''stop_loss'' = Some (PFloat (Flt (round_to 2 (max s (p * 0.985)))))) \<and>
      (map_of signal ''action'' = Some (PStr ''SELL'') \<longrightarrow>
         map_of signal ''take_profit'' = Some (PFloat (Flt (round_to 2 (max s (p * 0.98))))) \<and>
         map_of signal ''stop_loss'' = Some (PFloat (Flt (round_to 2 (min r (p * 1.015)))))) \<and>
      (map_of signal ''action'' = Some (PStr ''HOLD'') \<longrightarrow>
         map_of signal ''take_profit'' = Some (PFloat (Flt (round_to 2 p))) \<and>
         map_of signal ''stop_loss'' = Some (PFloat (Flt (round_to 2 p))))"
    by (simp add: py_min_Flt py_max_Flt)
  from general numeric grid show ?thesis by blast
qed

theorem targets_from_entry_witness:
  "map_of (generate_signal_from_indicators tight_buy) ''action'' = Some (PStr ''BUY'') \<and>
   map_of (generate_signal_from_indicators tight_buy) ''entry'' = Some (PFloat (Flt 100)) \<and>
   map_of (generate_signal_from_indicators tight_buy) ''take_profit'' =
     Some (PFloat (Flt 101)) \<and>
   map_of (generate_signal_from_indicators tight_buy) ''stop_loss'' =
     Some (PFloat (Flt 99)) \<and>
   map_of (generate_signal_from_indicators trend_and_rsi) ''action'' = Some (PStr ''BUY'') \<and>
   map_of (generate_signal_from_indicators trend_and_rsi) ''take_profit'' =
     Some (PFloat (Flt 102)) \<and>
   map_of (generate_signal_from_indicators trend_and_rsi) ''stop_loss'' =
     Some (PFloat (Flt 98.5)) \<and>
   map_of (generate_signal_from_indicators tight_sell) ''action'' = Some (PStr ''SELL'') \<and>
   map_of (generate_signal_from_indicators tight_sell) ''take_profit'' =
     Some (PFloat (Flt 99)) \<and>
   map_of (generate_signal_from_indicators tight_sell) ''stop_loss'' =
     Some (PFloat (Flt 101)) \<and>
   map_of (generate_signal_from_indicators overbought) ''action'' = Some (PStr ''SELL'') \<and>
   map_of (generate_signal_from_indicators overbought) ''take_profit'' =
     Some (PFloat (Flt 98)) \<and>
   map_of (generate_signal_from_indicators overbought) ''stop_loss'' =
     Some (PFloat (Flt 101.5)) \<and>
   map_of (generate_signal_from_indicators quiet) ''action'' = Some (PStr ''HOLD'') \<and>
   map_of (generate_signal_from_indicators quiet) ''take_profit'' = Some (PFloat (Flt 100)) \<and>
   map_of (generate_signal_from_indicators quiet) ''stop_loss'' = Some (PFloat (Flt 100))"
  using targets_from_entry [of tight_buy] targets_from_entry [of trend_and_rsi]
    targets_from_entry [of tight_sell] targets_from_entry [of overbought]
    targets_from_entry [of quiet]
  by (simp add: action_trend_and_rsi action_overbought action_quiet action_tight_buy
      action_tight_sell levels_trend_and_rsi levels_overbought levels_quiet
      levels_tight_buy levels_tight_sell py_min_Flt py_max_Flt round_to_examples)

subsection \<open>Order of the prices\<close>

text \<open>
  Claim C4 as stated fails: the strict order \<open>stop_loss < entry < take_profit\<close> of the
  returned prices of a BUY signal with \<open>entry * 0.985 > 0\<close> and \<open>resistance > entry\<close>.
  For an asset quoted at 0.08 the three returned prices round to the same 0.08. For a
  close of 100 on a support of 100 the stop loss is \<open>max 100 98.5\<close>, the entry itself.
\<close>

theorem strict_ordering_counterexample:
  "map_of (generate_signal_from_indicators cheap_asset) ''action'' = Some (PStr ''BUY'') \<and>
   fl_less (Flt 0) (fl_mul (current_price cheap_asset) (Flt 0.985)) \<and>
   fl_less (current_price cheap_asset) (resistance cheap_asset) \<and>
   map_of (generate_signal_from_indicators cheap_asset) ''stop_loss'' =
     Some (PFloat (Flt 0.08)) \<and>
   map_of (generate_signal_from_indicators cheap_asset) ''entry'' =
     Some (PFloat (Flt 0.08)) \<and>
   map_of (generate_signal_from_indicators cheap_asset) ''take_profit'' =
     Some (PFloat (Flt 0.08)) \<and>
   map_of (generate_signal_from_indicators close_at_support) ''action'' =
     Some (PStr ''BUY'') \<and>
   fl_less (Flt 0) (fl_mul (current_price close_at_support) (Flt 0.985)) \<and>
   fl_less (current_price close_at_support) (resistance close_at_support) \<and>
   map_of (generate_signal_from_indicators close_at_support) ''stop_loss'' =
     Some (PFloat (Flt 100)) \<and>
   map_of (generate_signal_from_indicators close_at_support) ''entry'' =
     Some (PFloat (Flt 100))"
  by (simp add: signal_action signal_entry signal_stop_loss signal_take_profit
      cheap_asset_votes close_at_support_votes decide_def price_targets_def
      py_min_def py_max_def fl_greater_def round_to_def rint_def)
    (simp add: cheap_asset_def close_at_support_def round_to_def rint_def)

text \<open>
  Claim C4, amended. For a positive entry strictly between support and resistance, the
  targets of a BUY signal satisfy \<open>stop_loss < entry < take_profit\<close> before rounding, and
  \<open>stop_loss \<le> entry \<le> take_profit\<close> as returned, rounded to two decimal places; those
  of a SELL signal satisfy \<open>take_profit < entry < stop_loss\<close> before rounding and
  \<open>take_profit \<le> entry \<le> stop_loss\<close> as returned.
\<close>

theorem target_ordering:
  assumes price: "current_price a = Flt p"
    and sup: "support a = Flt s"
    and res: "resistance a = Flt r"
    and pos: "0 < p" and below: "s < p" and above: "p < r"
  shows
  "(map_of (generate_signal_from_indicators a) ''action'' = Some (PStr ''BUY'') \<longrightarrow>
      price_targets ''BUY'' (Flt p) (Flt s) (Flt r) =
        (Flt (min r (p * 1.02)), Flt (max s (p * 0.985))) \<and>
      max s (p * 0.985) < p \<and> p < min r (p * 1.02) \<and>
      map_of (generate_signal_from_indicators a) ''stop_loss'' =
        Some (PFloat (Flt (round_to 2 (max s (p * 0.985))))) \<and>
      map_of (generate_signal_from_indicators a) ''entry'' =
        Some (PFloat (Flt (round_to 2 p))) \<and>
      map_of (generate_signal_from_indicators a) ''take_profit'' =
        Some (PFloat (Flt (round_to 2 (min r (p * 1.02))))) \<and>
      round_to 2 (max s (p * 0.985)) \<le> round_to 2 p \<and>
      round_to 2 p \<le> round_to 2 (min r (p * 1.02))) \<and>
   (map_of (generate_signal_from_indicators a) ''action'' = Some (PStr ''SELL'') \<longrightarrow>
      price_targets ''SELL'' (Flt p) (Flt s) (Flt r) =
        (Flt (max s (p * 0.98)), Flt (min r (p * 1.015))) \<and>
      max s (p * 0.98) < p \<and> p < min r (p * 1.015) \<and>
      map_of (generate_signal_from_indicators a) ''take_profit'' =
        Some (PFloat (Flt (round_to 2 (max s (p * 0.98))))) \<and>
      map_of (generate_signal_from_indicators a) ''entry'' =
        Some (PFloat (Flt (round_to 2 p))) \<and>
      map_of (generate_signal_from_indicators a) ''stop_loss'' =
        Some (PFloat (Flt (round_to 2 (min r (p * 1.015))))) \<and>
      round_to 2 (max s (p * 0.98)) \<le> round_to 2 p \<and>
      round_to 2 p \<le> round_to 2 (min r (p * 1.015)))"
proof -
  have buy: "price_targets ''BUY'' (Flt p) (Flt s) (Flt r) =
      (Flt (min r (p * 1.02)), Flt (max s (p * 0.985)))"
    by (simp add: price_targets_def py_min_Flt py_max_Flt)
  have sell: "price_targets ''SELL'' (Flt p) (Flt s) (Flt r) =
      (Flt (max s (p * 0.98)), Flt (min r (p * 1.015)))"
    by (simp add: price_targets_def py_min_Flt py_max_Flt)
  have lt: "max s (p * 0.985) < p" "p < min r (p * 1.02)"
    "max s (p * 0.98) < p" "p < min r (p * 1.015)"
    using pos below above by simp_all
  have le: "round_to 2 (max s (p * 0.985)) \<le> round_to 2 p"
    "round_to 2 p \<le> round_to 2 (min r (p * 1.02))"
    "round_to 2 (max s (p * 0.98)) \<le> round_to 2 p"
    "round_to 2 p \<le> round_to 2 (min r (p * 1.015))"
    using lt by (simp_all only: round_to_mono less_imp_le)
  have entry: "map_of (generate_signal_from_indicators a) ''entry'' =
      Some (PFloat (Flt (round_to 2 p)))"
    by (simp add: signal_entry price)
  show ?thesis
  proof (intro conjI impI)
    assume "map_of (generate_signal_from_indicators a) ''action'' = Some (PStr ''BUY'')"
    then have act: "fst (decide (fst (collect_votes a))) = ''BUY''"
      by (simp add: signal_action)
    show "map_of (generate_signal_from_indicators a) ''stop_loss'' =
        Some (PFloat (Flt (round_to 2 (max s (p * 0.985)))))"
      by (simp add: signal_stop_loss act price sup res buy)
    show "map_of (generate_signal_from_indicators a) ''take_profit'' =
        Some (PFloat (Flt (round_to 2 (min r (p * 1.02)))))"
      by (simp add: signal_take_profit act price sup res buy)
  next
    assume "map_of (generate_signal_from_indicators a) ''action'' = Some (PStr ''SELL'')"
    then have act: "fst (decide (fst (collect_votes a))) = ''SELL''"
      by (simp add: signal_action)
    show "map_of (generate_signal_from_indicators a) ''stop_loss'' =
        Some (PFloat (Flt (round_to 2 (min r (p * 1.015)))))"
      by (simp add: signal_stop_loss act price sup res sell)
    show "map_of (generate_signal_from_indicators a) ''take_profit'' =
        Some (PFloat (Flt (round_to 2 (max s (p * 0.98)))))"
      by (simp add: signal_take_profit act price sup res sell)
  qed (rule buy sell lt le entry)+
qed

theorem target_ordering_witness:
  "map_of (generate_signal_from_indicators trend_and_rsi) ''action'' = Some (PStr ''BUY'') \<and>
   map_of (generate_signal_from_indicators trend_and_rsi) ''stop_loss'' =
     Some (PFloat (Flt 98.5)) \<and>
   map_of (generate_signal_from_indicators trend_and_rsi) ''entry'' = Some (PFloat (Flt 100)) \<and>
   map_of (generate_signal_from_indicators trend_and_rsi) ''take_profit'' =
     Some (PFloat (Flt 102)) \<and>
   map_of (generate_signal_from_indicators overbought) ''action'' = Some (PStr ''SELL'') \<and>
   map_of (generate_signal_from_indicators overbought) ''take_profit'' =
     Some (PFloat (Flt 98)) \<and>
   map_of (generate_signal_from_indicators overbought) ''entry'' = Some (PFloat (Flt 100)) \<and>
   map_of (generate_signal_from_indicators overbought) ''stop_loss'' =
     Some (PFloat (Flt 101.5))"
  using target_ordering [OF levels_trend_and_rsi] target_ordering [OF levels_overbought]
  by (simp add: action_trend_and_rsi action_overbought round_to_examples)

section \<open>Reading an error signal\<close>

lemma error_signal_fields:
  "map_of (generate_error_signal msg) ''action'' = Some (PStr ''HOLD'')"
  "map_of (generate_error_signal msg) ''error'' = Some (PBool True)"
  "map_of (generate_error_signal msg) ''timeframe'' = None"
  "map_of (generate_error_signal msg) ''indicators'' = None"
  "map_of (generate_error_signal msg) ''patterns'' = None"
  "map_of (generate_error_signal msg) ''analysis_type'' = Some (PStr ''error'')"
  by (simp_all add: generate_error_signal_def)

lemma error_signal_message:
  "map_of (generate_error_signal msg) ''message'' = Some (PStr msg)"
  by (simp add: generate_error_signal_def)

section \<open>Properties of the tabular path\<close>

subsection \<open>Reading a column\<close>

lemma length_filter_name:
  "length (filter (\<lambda>(n, cs). n = col) df) = count_list (map fst df) col"
  by (induction df) auto

lemma getitem_once:
  assumes "count_list (map fst df) col = 1"
  shows "\<exists>cs. getitem df col = Inr cs"
proof -
  have "length (filter (\<lambda>(n, cs). n = col) df) = 1"
    using assms by (simp add: length_filter_name)
  then obtain n cs where "filter (\<lambda>(n, cs). n = col) df = [(n, cs)]"
    by (cases "filter (\<lambda>(n, cs). n = col) df") auto
  then show ?thesis by (simp add: getitem_def)
qed

lemma getitem_twice:
  assumes "1 < count_list (map fst df) col"
  shows "getitem df col = Inl (Exn ''arg must be a list, tuple, 1-d array, or Series'')"
proof -
  have "1 < length (filter (\<lambda>(n, cs). n = col) df)"
    using assms by (simp add: length_filter_name)
  then obtain x y zs where "filter (\<lambda>(n, cs). n = col) df = x # y # zs"
    by (cases "filter (\<lambda>(n, cs). n = col) df" rule: remdups_adj.cases) auto
  then show ?thesis by (simp add: getitem_def split: prod.splits)
qed

lemma getitem_present:
  assumes "col \<in> set (map fst df)"
  shows "(\<exists>cs. getitem df col = Inr cs) \<or>
         getitem df col = Inl (Exn ''arg must be a list, tuple, 1-d array, or Series'')"
proof -
  have "0 < count_list (map fst df) col"
    using assms count_list_0_iff [of "map fst df" col] by auto
  then have "count_list (map fst df) col = 1 \<or> 1 < count_list (map fst df) col"
    by linarith
  then show ?thesis using getitem_once getitem_twice by blast
qed

lemma all_required_iff:
  "all_required df \<longleftrightarrow> (\<forall>col\<in>set required_cols. 0 < count_list (map fst df) col)"
proof -
  have "col \<in> set (map fst df) \<longleftrightarrow> 0 < count_list (map fst df) col" for col
    using count_list_0_iff [of "map fst df" col] by auto
  then show ?thesis by (simp only: all_required_def list_all_iff)
qed

lemma clean_once:
  assumes "\<forall>col\<in>set required_cols. count_list (map fst df) col = 1"
  shows "\<exists>rows. clean df = Inr rows"
proof -
  have one: "count_list (map fst df) ''open'' = 1" "count_list (map fst df) ''high'' = 1"
    "count_list (map fst df) ''low'' = 1" "count_list (map fst df) ''close'' = 1"
    using assms by (simp_all add: required_cols_def)
  obtain os where "getitem df ''open'' = Inr os" using getitem_once [OF one(1)] by blast
  moreover obtain hs where "getitem df ''high'' = Inr hs" using getitem_once [OF one(2)] by blast
  moreover obtain ls where "getitem df ''low'' = Inr ls" using getitem_once [OF one(3)] by blast
  moreover obtain cs where "getitem df ''close'' = Inr cs" using getitem_once [OF one(4)] by blast
  ultimately show ?thesis by (simp add: clean_def)
qed

lemma clean_twice:
  assumes "all_required df"
    and "\<exists>col\<in>set required_cols. 1 < count_list (map fst df) col"
  shows "clean df = Inl (Exn ''arg must be a list, tuple, 1-d array, or Series'')"
proof -
  have p: "(\<exists>cs. getitem df col = Inr cs) \<or>
         getitem df col = Inl (Exn ''arg must be a list, tuple, 1-d array, or Series'')"
    if "col \<in> set required_cols" for col
    using that assms(1) getitem_present by (simp add: all_required_def list_all_iff)
  from assms(2) obtain col where c: "col \<in> set required_cols"
    "getitem df col = Inl (Exn ''arg must be a list, tuple, 1-d array, or Series'')"
    using getitem_twice by blast
  from p [of "''open''"] p [of "''high''"] p [of "''low''"] p [of "''close''"] c
  show ?thesis
    by (auto simp: clean_def required_cols_def)
qed

lemma getitem_Inr:
  assumes "getitem df col = Inr xs"
  shows "\<exists>n. filter (\<lambda>(n, cs). n = col) df = [(n, xs)]"
proof (cases "filter (\<lambda>(n, cs). n = col) df" rule: remdups_adj.cases)
  case 1
  with assms show ?thesis by (simp add: getitem_def)
next
  case (2 x)
  with assms show ?thesis by (cases x) (simp add: getitem_def)
next
  case (3 x y zs)
  with assms show ?thesis by (cases x) (simp add: getitem_def)
qed

lemma getitem_set:
  assumes "getitem df col = Inr xs"
  shows "{c. (col, c) \<in> set df} = {xs}"
proof -
  from assms obtain n where f: "filter (\<lambda>(n, cs). n = col) df = [(n, xs)]"
    using getitem_Inr by blast
  have "set (filter (\<lambda>(n, cs). n = col) df) = {(n, c) |n c. (n, c) \<in> set df \<and> n = col}"
    by auto
  with f have "{(n, c) |n c. (n, c) \<in> set df \<and> n = col} = {(n, xs)}" by simp
  then show ?thesis by auto
qed

subsection \<open>The cleaned rows are the valid rows\<close>

lemma length_filter_index:
  "length (filter P xs) = length (filter (\<lambda>i. P (xs ! i)) [0..<length xs])"
proof -
  have "filter P (map (nth xs) [0..<length xs]) =
      map (nth xs) (filter (P \<circ> nth xs) [0..<length xs])"
    by (rule filter_map)
  then have "length (filter P xs) = length (filter (P \<circ> nth xs) [0..<length xs])"
    by (simp add: map_nth)
  then show ?thesis by (simp add: comp_def)
qed

lemma candle_of_defined:
  "candle_of (a, b, c, d) \<noteq> None \<longleftrightarrow> a \<noteq> NaN \<and> b \<noteq> NaN \<and> c \<noteq> NaN \<and> d \<noteq> NaN"
  by (cases a; cases b; cases c; cases d) simp_all

lemma clean_length_valid_rows:
  assumes cl: "clean df = Inr rows"
    and wf: "\<forall>(n, cs)\<in>set df. length cs = m"
  shows "length rows = valid_rows df"
proof -
  from cl obtain os hs ls cs where
    g: "getitem df ''open'' = Inr os" "getitem df ''high'' = Inr hs"
      "getitem df ''low'' = Inr ls" "getitem df ''close'' = Inr cs"
    and rows: "rows = List.map_filter candle_of
               (zip (map to_numeric os) (zip (map to_numeric hs)
                 (zip (map to_numeric ls) (map to_numeric cs))))"
    by (auto simp: clean_def split: sum.splits)
  define cols where "cols = map snd (filter (\<lambda>(n, cs). n \<in> set required_cols) df)"
  have "set cols = {c. (''open'', c) \<in> set df} \<union> {c. (''high'', c) \<in> set df} \<union>
      {c. (''low'', c) \<in> set df} \<union> {c. (''close'', c) \<in> set df}"
    by (force simp: cols_def required_cols_def)
  then have set_cols: "set cols = {os, hs, ls, cs}"
    using g by (simp add: getitem_set) blast
  have len: "length c = m" if "c \<in> set cols" for c
    using that wf by (auto simp: cols_def)
  then have l4: "length os = m" "length hs = m" "length ls = m" "length cs = m"
    using set_cols by simp_all
  have n: "(case cols of [] \<Rightarrow> 0 | c # _ \<Rightarrow> length c) = m"
  proof (cases cols)
    case Nil
    with set_cols show ?thesis by simp
  next
    case (Cons c cs')
    then have "c \<in> set cols" by simp
    with Cons len show ?thesis by simp
  qed
  let ?z = "zip (map to_numeric os) (zip (map to_numeric hs)
                 (zip (map to_numeric ls) (map to_numeric cs)))"
  have lz: "length ?z = m" using l4 by simp
  have "length rows = length (filter (\<lambda>x. candle_of x \<noteq> None) ?z)"
    by (simp add: rows List.map_filter_def)
  also have "\<dots> = length (filter (\<lambda>i. candle_of (?z ! i) \<noteq> None) [0..<m])"
    using length_filter_index [of "\<lambda>x. candle_of x \<noteq> None" ?z] lz by simp
  also have "filter (\<lambda>i. candle_of (?z ! i) \<noteq> None) [0..<m] =
      filter (\<lambda>i. list_all (\<lambda>col. to_numeric (col ! i) \<noteq> NaN) cols) [0..<m]"
  proof (rule filter_cong [OF refl])
    fix i assume "i \<in> set [0..<m]"
    then have i: "i < m" by simp
    then have "?z ! i = (to_numeric (os ! i), to_numeric (hs ! i),
        to_numeric (ls ! i), to_numeric (cs ! i))"
      using l4 by simp
    then show "(candle_of (?z ! i) \<noteq> None) =
        list_all (\<lambda>col. to_numeric (col ! i) \<noteq> NaN) cols"
      by (simp only: candle_of_defined list_all_iff set_cols) blast
  qed
  finally show ?thesis
    by (simp add: valid_rows_def Let_def n flip: cols_def)
qed

text \<open>Normalization changes the names of the columns only.\<close>

lemma map_snd_rename: "map snd (rename old_col new_col df) = map snd df"
  by (induction df) (auto simp: rename_def)

lemma map_snd_rename_all: "map snd (rename_all m df) = map snd df"
  by (induction m arbitrary: df) (auto simp: map_snd_rename)

lemma map_snd_standardize: "map snd (standardize raw) = map snd raw"
  by (simp add: standardize_def map_snd_rename_all case_prod_unfold comp_def)

lemma standardize_equal_length:
  assumes "\<forall>(n, cs)\<in>set raw. length cs = m"
  shows "\<forall>(n, cs)\<in>set (standardize raw). length cs = m"
proof -
  have "set (map snd (standardize raw)) = set (map snd raw)"
    by (simp only: map_snd_standardize)
  with assms show ?thesis by (simp add: case_prod_unfold) (metis image_iff)
qed

subsection \<open>The example frames\<close>

lemma standardize_flat_frame:
  "standardize flat_frame =
     [(''time'', replicate 20 (NonNumeric ''2024-01-01'')),
      (''open'', replicate 20 (Numeric 100)),
      (''high'', replicate 20 (Numeric 101)),
      (''low'', replicate 20 (Numeric 99)),
      (''close'', replicate 20 (Numeric 100))]"
  by (simp add: standardize_def flat_frame_def column_mapping_def rename_def
      str_strip_def str_lower_def lower_char_def upper_chars_def lower_chars_def is_space_def)

lemma standardize_twice_open:
  "standardize twice_open =
     [(''open'', replicate 20 (Numeric 100)),
      (''time'', replicate 20 (NonNumeric ''2024-01-01'')),
      (''open'', replicate 20 (Numeric 100)),
      (''high'', replicate 20 (Numeric 101)),
      (''low'', replicate 20 (Numeric 99)),
      (''close'', replicate 20 (Numeric 100))]"
  by (simp add: standardize_def twice_open_def flat_frame_def column_mapping_def rename_def
      str_strip_def str_lower_def lower_char_def upper_chars_def lower_chars_def is_space_def)

lemma clean_flat_frame: "clean (standardize flat_frame) = Inr (replicate 20 flat_candle)"
  by (simp add: standardize_flat_frame clean_def getitem_def zip_replicate
      List.map_filter_def flat_candle_def)

lemma clean_twice_open:
  "clean (standardize twice_open) = Inl (Exn ''arg must be a list, tuple, 1-d array, or Series'')"
  by (simp add: standardize_twice_open clean_def getitem_def)

lemma all_required_twice_open: "all_required (standardize twice_open)"
  by (simp add: standardize_twice_open all_required_def required_cols_def)

lemma standardize_no_low:
  "standardize no_low_frame =
     [(''open'', replicate 20 (Numeric 100)),
      (''high'', replicate 20 (Numeric 101)),
      (''close'', replicate 20 (Numeric 100))]"
  by (simp add: standardize_def no_low_frame_def column_mapping_def rename_def
      str_strip_def str_lower_def lower_char_def upper_chars_def lower_chars_def is_space_def)

lemma standardize_short: "standardize short_frame = short_frame"
  by (simp add: standardize_def short_frame_def column_mapping_def rename_def
      str_strip_def str_lower_def lower_char_def upper_chars_def lower_chars_def is_space_def)

lemma clean_short: "clean (standardize short_frame) = Inr (replicate 19 flat_candle)"
  unfolding standardize_short
  by (simp add: short_frame_def clean_def getitem_def zip_replicate
      List.map_filter_def flat_candle_def)

lemma valid_rows_twice_open: "valid_rows (standardize twice_open) = 20"
  unfolding standardize_twice_open
  by (simp add: valid_rows_def required_cols_def upt_rec_numeral)

lemma once_flat_frame:
  "\<forall>col\<in>set required_cols. count_list (map fst (standardize flat_frame)) col = 1"
  by (simp add: standardize_flat_frame required_cols_def)

lemma once_short_frame:
  "\<forall>col\<in>set required_cols. count_list (map fst (standardize short_frame)) col = 1"
  unfolding standardize_short by (simp add: short_frame_def required_cols_def)

lemma twice_twice_open:
  "all_required (standardize twice_open) \<and>
   (\<exists>col\<in>set required_cols. 1 < count_list (map fst (standardize twice_open)) col)"
  by (simp add: all_required_twice_open) (simp add: standardize_twice_open required_cols_def)

lemma missing_no_low: "\<not> all_required (standardize no_low_frame)"
  by (simp add: standardize_no_low all_required_def required_cols_def)

lemma equal_length_examples:
  "\<forall>(n, cs)\<in>set flat_frame. length cs = 20"
  "\<forall>(n, cs)\<in>set twice_open. length cs = 20"
  "\<forall>(n, cs)\<in>set no_low_frame. length cs = 20"
  "\<forall>(n, cs)\<in>set short_frame. length cs = 20"
  by (simp_all add: flat_frame_def twice_open_def no_low_frame_def short_frame_def)

lemma valid_rows_flat_frame: "valid_rows (standardize flat_frame) = 20"
  unfolding standardize_flat_frame
  by (simp add: valid_rows_def required_cols_def upt_rec_numeral)

lemma valid_rows_short_frame: "valid_rows (standardize short_frame) = 19"
  using clean_length_valid_rows [OF clean_short
      standardize_equal_length [OF equal_length_examples(4)]]
  by simp

subsection \<open>The four outcomes of validation\<close>

lemma analyze_csv_missing:
  assumes "\<not> all_required (standardize raw)"
  shows "analyze_csv_data ta (Parsed raw) tf =
     generate_error_signal ''Invalid CSV format. Required columns: Open, High, Low, Close''"
  using assms by (simp add: analyze_csv_data_def analyze_csv_body_def)

lemma analyze_csv_raises:
  assumes "all_required (standardize raw)" and "clean (standardize raw) = Inl (Exn msg)"
  shows "analyze_csv_data ta (Parsed raw) tf =
     generate_error_signal (''CSV analysis failed: '' @ msg)"
  using assms by (simp add: analyze_csv_data_def analyze_csv_body_def)

lemma analyze_csv_short:
  assumes "all_required (standardize raw)" and "clean (standardize raw) = Inr rows"
    and "length rows < 20"
  shows "analyze_csv_data ta (Parsed raw) tf =
     generate_error_signal ''Insufficient data for analysis (minimum 20 candles required)''"
  using assms by (simp add: analyze_csv_data_def analyze_csv_body_def)

lemma analyze_csv_passes:
  assumes "all_required (standardize raw)" and "clean (standardize raw) = Inr rows"
    and "20 \<le> length rows"
  shows "analyze_csv_data ta (Parsed raw) tf =
     generate_signal_from_indicators (indicator_inputs ta rows tf)"
proof -
  from assms(3) have "rows \<noteq> []" by auto
  with assms show ?thesis
    by (simp add: analyze_csv_data_def analyze_csv_body_def calculate_indicators_def)
qed

lemma once_all_required:
  assumes "\<forall>col\<in>set required_cols. count_list (map fst df) col = 1"
  shows "all_required df"
  using assms by (simp add: all_required_iff)

text \<open>
  Claim C5 as stated fails in its last part, that every frame with the four columns and
  20 valid rows passes to the indicators. The frame \<^const>\<open>twice_open\<close> has an \<^verbatim>\<open>o\<close>
  and an \<^verbatim>\<open>Open\<close> column: both are named \<^verbatim>\<open>open\<close> after normalization, no required
  column is absent, all 20 rows are valid, and the result is the error signal of the
  \<^verbatim>\<open>except\<close> branch.
\<close>

theorem validation_counterexample:
  "all_required (standardize twice_open) \<and>
   \<not> valid_rows (standardize twice_open) < 20 \<and>
   analyze_csv_data ta_reference (Parsed twice_open) ''1h'' =
     generate_error_signal
       ''CSV analysis failed: arg must be a list, tuple, 1-d array, or Series''"
  by (simp add: all_required_twice_open valid_rows_twice_open analyze_csv_raises
      clean_twice_open)

text \<open>
  Claim C5, amended. For a frame whose columns are equally long, with \<open>df\<close> the frame
  after normalization of the column names: if one of open, high, low, close names no
  column, the result is an error signal whose message is ``Invalid CSV format. Required
  columns: Open, High, Low, Close''; if each names exactly one column, cleaning leaves the
  valid rows, fewer than 20 of them give an error signal whose message is ``Insufficient
  data for analysis (minimum 20 candles required)'', and 20 or more are passed to the
  indicator computation, whose signal is the result. If none is absent and one of them
  names several columns, the result is an error signal whose message starts with ``CSV
  analysis failed''.
\<close>

theorem validation_outcomes:
  fixes raw :: dataframe and ta :: ta_lib and tf :: string
  defines "df \<equiv> standardize raw"
    and "result \<equiv> analyze_csv_data ta (Parsed raw) tf"
  assumes frame: "\<forall>(n, cs)\<in>set raw. length cs = m"
  shows
  "(\<not> all_required df \<longrightarrow>
      map_of result ''analysis_type'' = Some (PStr ''error'') \<and>
      map_of result ''message'' =
        Some (PStr ''Invalid CSV format. Required columns: Open, High, Low, Close'')) \<and>
   (all_required df \<and> (\<exists>col\<in>set required_cols. 1 < count_list (map fst df) col) \<longrightarrow>
      map_of result ''analysis_type'' = Some (PStr ''error'') \<and>
      map_of result ''message'' =
        Some (PStr ''CSV analysis failed: arg must be a list, tuple, 1-d array, or Series'')) \<and>
   ((\<forall>col\<in>set required_cols. count_list (map fst df) col = 1) \<longrightarrow>
      (\<exists>rows. clean df = Inr rows \<and> length rows = valid_rows df \<and>
         (valid_rows df < 20 \<longrightarrow>
            map_of result ''analysis_type'' = Some (PStr ''error'') \<and>
            map_of result ''message'' =
              Some (PStr ''Insufficient data for analysis (minimum 20 candles required)'')) \<and>
         (20 \<le> valid_rows df \<longrightarrow>
            result = generate_signal_from_indicators (indicator_inputs ta rows tf) \<and>
            map_of result ''analysis_type'' = Some (PStr ''technical_indicators''))))"
proof (intro conjI impI)
  assume "\<not> all_required df"
  then have "result = generate_error_signal
      ''Invalid CSV format. Required columns: Open, High, Low, Close''"
    unfolding df_def result_def by (rule analyze_csv_missing)
  then show "map_of result ''analysis_type'' = Some (PStr ''error'')"
    and "map_of result ''message'' =
        Some (PStr ''Invalid CSV format. Required columns: Open, High, Low, Close'')"
    by (simp_all add: error_signal_fields error_signal_message)
next
  assume dup: "all_required df \<and> (\<exists>col\<in>set required_cols. 1 < count_list (map fst df) col)"
  then have "clean df = Inl (Exn ''arg must be a list, tuple, 1-d array, or Series'')"
    using clean_twice by blast
  with dup have "result = generate_error_signal
      ''CSV analysis failed: arg must be a list, tuple, 1-d array, or Series''"
    unfolding df_def result_def using analyze_csv_raises by fastforce
  then show "map_of result ''analysis_type'' = Some (PStr ''error'')"
    and "map_of result ''message'' =
        Some (PStr ''CSV analysis failed: arg must be a list, tuple, 1-d array, or Series'')"
    by (simp_all add: error_signal_fields error_signal_message)
next
  assume once: "\<forall>col\<in>set required_cols. count_list (map fst df) col = 1"
  then obtain rows where rows: "clean df = Inr rows"
    using clean_once by blast
  have req: "all_required df" using once by (rule once_all_required)
  have "\<forall>(n, cs)\<in>set df. length cs = m"
    unfolding df_def using frame by (rule standardize_equal_length)
  with rows have len: "length rows = valid_rows df"
    by (rule clean_length_valid_rows)
  have short: "map_of result ''analysis_type'' = Some (PStr ''error'') \<and>
      map_of result ''message'' =
        Some (PStr ''Insufficient data for analysis (minimum 20 candles required)'')"
    if "valid_rows df < 20"
  proof -
    from that len have "length rows < 20" by simp
    with req rows have "result = generate_error_signal
        ''Insufficient data for analysis (minimum 20 candles required)''"
      unfolding df_def result_def by (simp add: analyze_csv_short)
    then show ?thesis by (simp add: error_signal_fields error_signal_message)
  qed
  have pass: "result = generate_signal_from_indicators (indicator_inputs ta rows tf) \<and>
      map_of result ''analysis_type'' = Some (PStr ''technical_indicators'')"
    if "20 \<le> valid_rows df"
  proof -
    from that len have "20 \<le> length rows" by simp
    with req rows have "result = generate_signal_from_indicators (indicator_inputs ta rows tf)"
      unfolding df_def result_def by (simp add: analyze_csv_passes)
    then show ?thesis by (simp add: signal_analysis_type)
  qed
  from rows len short pass
  show "\<exists>rows. clean df = Inr rows \<and> length rows = valid_rows df \<and>
         (valid_rows df < 20 \<longrightarrow>
            map_of result ''analysis_type'' = Some (PStr ''error'') \<and>
            map_of result ''message'' =
              Some (PStr ''Insufficient data for analysis (minimum 20 candles required)'')) \<and>
         (20 \<le> valid_rows df \<longrightarrow>
            result = generate_signal_from_indicators (indicator_inputs ta rows tf) \<and>
            map_of result ''analysis_type'' = Some (PStr ''technical_indicators''))"
    by blast
qed

theorem validation_outcomes_witness:
  "map_of (analyze_csv_data ta_reference (Parsed no_low_frame) ''1h'') ''message'' =
     Some (PStr ''Invalid CSV format. Required columns: Open, High, Low, Close'') \<and>
   map_of (analyze_csv_data ta_reference (Parsed twice_open) ''1h'') ''message'' =
     Some (PStr ''CSV analysis failed: arg must be a list, tuple, 1-d array, or Series'') \<and>
   valid_rows (standardize short_frame) = 19 \<and>
   map_of (analyze_csv_data ta_reference (Parsed short_frame) ''1h'') ''message'' =
     Some (PStr ''Insufficient data for analysis (minimum 20 candles required)'') \<and>
   valid_rows (standardize flat_frame) = 20 \<and>
   clean (standardize flat_frame) = Inr (replicate 20 flat_candle) \<and>
   analyze_csv_data ta_reference (Parsed flat_frame) ''1h'' =
     generate_signal_from_indicators
       (indicator_inputs ta_reference (replicate 20 flat_candle) ''1h'') \<and>
   map_of (analyze_csv_data ta_reference (Parsed flat_frame) ''1h'') ''analysis_type'' =
     Some (PStr ''technical_indicators'')"
  using validation_outcomes [OF equal_length_examples(3), of ta_reference "''1h''"]
    validation_outcomes [OF equal_length_examples(2), of ta_reference "''1h''"]
    validation_outcomes [OF equal_length_examples(4), of ta_reference "''1h''"]
    validation_outcomes [OF equal_length_examples(1), of ta_reference "''1h''"]
    missing_no_low twice_twice_open once_short_frame once_flat_frame
  by (simp add: clean_short clean_flat_frame valid_rows_flat_frame valid_rows_short_frame
      signal_analysis_type)

subsection \<open>Frames that pass validation\<close>

lemma trend_rule_nan: "sma_50 a = NaN \<Longrightarrow> trend_rule a v = v"
  by (cases "sma_20 a") (simp_all add: trend_rule_def fl_greater_def)

lemma sma_warm_up: "length xs < w \<Longrightarrow> sma xs w = NaN"
  by (simp add: sma_def)

text \<open>The windows of the reference library that 20 rows do not fill.\<close>

lemma length_filter_mono:
  "(\<And>x. x \<in> set xs \<Longrightarrow> P x \<Longrightarrow> Q x) \<Longrightarrow> length (filter P xs) \<le> length (filter Q xs)"
  by (induction xs) auto

lemma length_filter_ge: "length (filter (\<lambda>n. k \<le> n) [0..<m]) = m - k"
  by (induction m) auto

lemma ema_warm_up: "length xs < w \<Longrightarrow> ema xs w = NaN"
  by (simp add: ema_def)

lemma macd_line_warm_up: "length xs < 26 \<Longrightarrow> macd_line xs = NaN"
  by (cases "ema xs 12") (simp_all add: macd_line_def ema_warm_up)

lemma length_numbers: "length (numbers ys) = length (filter (\<lambda>y. y \<noteq> NaN) ys)"
proof -
  have "(case y of Flt x \<Rightarrow> Some x | NaN \<Rightarrow> None) \<noteq> None \<longleftrightarrow> y \<noteq> NaN" for y
    by (cases y) simp_all
  then show ?thesis by (simp add: numbers_def List.map_filter_def)
qed

lemma macd_series_defined:
  "length (numbers (map macd_line (prefixes xs))) \<le> length xs - 25"
proof -
  have "length (numbers (map macd_line (prefixes xs))) =
      length (filter (\<lambda>n. macd_line (take (Suc n) xs) \<noteq> NaN) [0..<length xs])"
    by (simp add: length_numbers prefixes_def filter_map comp_def)
  also have "\<dots> \<le> length (filter (\<lambda>n. 25 \<le> n) [0..<length xs])"
  proof (rule length_filter_mono)
    fix n assume "n \<in> set [0..<length xs]" and d: "macd_line (take (Suc n) xs) \<noteq> NaN"
    show "25 \<le> n"
    proof (rule ccontr)
      assume "\<not> 25 \<le> n"
      then have "length (take (Suc n) xs) < 26" by simp
      then have "macd_line (take (Suc n) xs) = NaN" by (rule macd_line_warm_up)
      with d show False by simp
    qed
  qed
  also have "\<dots> = length xs - 25" by (rule length_filter_ge)
  finally show ?thesis .
qed

lemma macd_signal_warm_up: "length xs < 34 \<Longrightarrow> macd_signal_line xs = NaN"
  using macd_series_defined [of xs] by (simp add: macd_signal_line_def ema_warm_up)

lemma macd_rule_nan: "macd_signal a = NaN \<Longrightarrow> macd_rule a v = v"
  by (cases "macd a") (simp_all add: macd_rule_def fl_greater_def)

lemma reference_inputs:
  "sma_50 (indicator_inputs ta_reference rows tf) = sma (map c_close rows) 50"
  "ema_26 (indicator_inputs ta_reference rows tf) = ema (map c_close rows) 26"
  "macd (indicator_inputs ta_reference rows tf) = macd_line (map c_close rows)"
  "macd_signal (indicator_inputs ta_reference rows tf) = macd_signal_line (map c_close rows)"
  by (simp_all add: indicator_inputs_def ta_reference_def Let_def)

text \<open>
  Claim C3 as stated fails on the frame \<^const>\<open>twice_open\<close>: after normalization all
  four columns are present, all 20 rows are valid, and the result is an error signal.
\<close>

theorem analysis_counterexample:
  "all_required (standardize twice_open) \<and>
   valid_rows (standardize twice_open) = 20 \<and>
   map_of (analyze_csv_data ta_reference (Parsed twice_open) ''1h'') ''analysis_type'' =
     Some (PStr ''error'')"
  by (simp add: all_required_twice_open valid_rows_twice_open analyze_csv_raises
      clean_twice_open generate_error_signal_def)

text \<open>
  Claim C3, amended. For a frame whose columns are equally long, in which after
  normalization each of open, high, low, close names exactly one column and at least 20
  valid rows remain, the result is the signal of the indicator computation on the valid
  rows: its analysis type is \<^verbatim>\<open>technical_indicators\<close> and it has no \<^verbatim>\<open>error\<close> key. With
  the reference library, the indicators whose window the rows do not fill are NaN and
  cast no vote: below 50 rows \<^verbatim>\<open>sma_50\<close> is NaN, is reported as NaN, and the trend rule
  casts no vote; below 34 rows the MACD signal is NaN and the MACD rule casts no vote;
  below 26 rows \<^verbatim>\<open>ema_26\<close> and the MACD line are NaN; the result is still no error.
\<close>

theorem analysis_succeeds:
  fixes raw :: dataframe and ta :: ta_lib and tf :: string
  defines "df \<equiv> standardize raw"
  assumes frame: "\<forall>(n, cs)\<in>set raw. length cs = m"
    and once: "\<forall>col\<in>set required_cols. count_list (map fst df) col = 1"
    and enough: "20 \<le> valid_rows df"
  shows "\<exists>rows. clean df = Inr rows \<and> length rows = valid_rows df \<and>
     analyze_csv_data ta (Parsed raw) tf =
       generate_signal_from_indicators (indicator_inputs ta rows tf) \<and>
     map_of (analyze_csv_data ta (Parsed raw) tf) ''analysis_type'' =
       Some (PStr ''technical_indicators'') \<and>
     map_of (analyze_csv_data ta (Parsed raw) tf) ''error'' = None \<and>
     (length rows < 50 \<longrightarrow>
        sma_50 (indicator_inputs ta_reference rows tf) = NaN \<and>
        (\<forall>v. trend_rule (indicator_inputs ta_reference rows tf) v = v) \<and>
        (\<exists>d. map_of (analyze_csv_data ta_reference (Parsed raw) tf) ''indicators'' =
                Some (PDict d) \<and>
              map_of d ''sma_50'' = Some (PFloat NaN)) \<and>
        map_of (analyze_csv_data ta_reference (Parsed raw) tf) ''analysis_type'' =
          Some (PStr ''technical_indicators'')) \<and>
     (length rows < 34 \<longrightarrow>
        macd_signal (indicator_inputs ta_reference rows tf) = NaN \<and>
        (\<forall>v. macd_rule (indicator_inputs ta_reference rows tf) v = v)) \<and>
     (length rows < 26 \<longrightarrow>
        ema_26 (indicator_inputs ta_reference rows tf) = NaN \<and>
        macd (indicator_inputs ta_reference rows tf) = NaN)"
proof -
  from once obtain rows where rows: "clean df = Inr rows"
    using clean_once by blast
  have req: "all_required df" using once by (rule once_all_required)
  have "\<forall>(n, cs)\<in>set df. length cs = m"
    unfolding df_def using frame by (rule standardize_equal_length)
  with rows have len: "length rows = valid_rows df"
    by (rule clean_length_valid_rows)
  with enough have long: "20 \<le> length rows" by simp
  have res: "analyze_csv_data lib (Parsed raw) tf =
      generate_signal_from_indicators (indicator_inputs lib rows tf)" for lib
    using req rows long unfolding df_def by (rule analyze_csv_passes)
  have sma: "sma_50 (indicator_inputs ta_reference rows tf) = NaN \<and>
        (\<forall>v. trend_rule (indicator_inputs ta_reference rows tf) v = v) \<and>
        (\<exists>d. map_of (analyze_csv_data ta_reference (Parsed raw) tf) ''indicators'' =
                Some (PDict d) \<and>
              map_of d ''sma_50'' = Some (PFloat NaN)) \<and>
        map_of (analyze_csv_data ta_reference (Parsed raw) tf) ''analysis_type'' =
          Some (PStr ''technical_indicators'')"
    if "length rows < 50"
  proof -
    from that have n: "sma_50 (indicator_inputs ta_reference rows tf) = NaN"
      by (simp add: reference_inputs sma_warm_up)
    with signal_sma_50 [of "indicator_inputs ta_reference rows tf"] show ?thesis
      by (simp add: res trend_rule_nan signal_analysis_type)
  qed
  have sig: "macd_signal (indicator_inputs ta_reference rows tf) = NaN \<and>
        (\<forall>v. macd_rule (indicator_inputs ta_reference rows tf) v = v)"
    if "length rows < 34"
  proof -
    from that have "macd_signal (indicator_inputs ta_reference rows tf) = NaN"
      by (simp add: reference_inputs macd_signal_warm_up)
    then show ?thesis by (simp add: macd_rule_nan)
  qed
  have slow: "ema_26 (indicator_inputs ta_reference rows tf) = NaN \<and>
        macd (indicator_inputs ta_reference rows tf) = NaN"
    if "length rows < 26"
    using that by (simp add: reference_inputs ema_warm_up macd_line_warm_up)
  from rows len res [of ta] sma sig slow show ?thesis
    by (auto simp: signal_analysis_type signal_no_error_key)
qed

theorem analysis_succeeds_witness:
  "clean (standardize flat_frame) = Inr (replicate 20 flat_candle) \<and>
   valid_rows (standardize flat_frame) = 20 \<and>
   map_of (analyze_csv_data ta_reference (Parsed flat_frame) ''1h'') ''analysis_type'' =
     Some (PStr ''technical_indicators'') \<and>
   map_of (analyze_csv_data ta_reference (Parsed flat_frame) ''1h'') ''error'' = None \<and>
   sma_50 (indicator_inputs ta_reference (replicate 20 flat_candle) ''1h'') = NaN \<and>
   ema_26 (indicator_inputs ta_reference (replicate 20 flat_candle) ''1h'') = NaN \<and>
   macd (indicator_inputs ta_reference (replicate 20 flat_candle) ''1h'') = NaN \<and>
   macd_signal (indicator_inputs ta_reference (replicate 20 flat_candle) ''1h'') = NaN \<and>
   trend_rule (indicator_inputs ta_reference (replicate 20 flat_candle) ''1h'') ([], []) =
     ([], []) \<and>
   macd_rule (indicator_inputs ta_reference (replicate 20 flat_candle) ''1h'') ([], []) =
     ([], [])"
proof -
  have enough: "20 \<le> valid_rows (standardize flat_frame)"
    by (simp add: valid_rows_flat_frame)
  from analysis_succeeds [OF equal_length_examples(1) once_flat_frame enough,
      of ta_reference "''1h''"]
  show ?thesis by (auto simp: clean_flat_frame valid_rows_flat_frame)
qed

subsection \<open>Support and resistance\<close>

lemma series_min_Min: "xs \<noteq> [] \<Longrightarrow> series_min xs = Flt (Min (set xs))"
  by (cases xs) (simp_all add: Min.set_eq_fold [symmetric])

lemma series_max_Max: "xs \<noteq> [] \<Longrightarrow> series_max xs = Flt (Max (set xs))"
  by (cases xs) (simp_all add: Max.set_eq_fold [symmetric])

lemma tail_nonempty: "xs \<noteq> [] \<Longrightarrow> 0 < n \<Longrightarrow> tail n xs \<noteq> []"
  by (cases xs) (simp_all add: tail_def)

lemma last_in_tail:
  assumes "xs \<noteq> []" and "0 < n"
  shows "last xs \<in> set (tail n xs)"
proof -
  have "length xs - n < length xs" using assms by (cases xs) simp_all
  then have "last (tail n xs) = last xs" by (simp add: tail_def)
  moreover have "tail n xs \<noteq> []" using assms by (rule tail_nonempty)
  ultimately show ?thesis using last_in_set by metis
qed

text \<open>
  Claim C9. For a cleaned frame with a last row, in which every one of the last 20
  candles has \<open>low \<le> close \<le> high\<close>, the support passed to the scoring is the least low
  of the last 20 candles, the resistance is their greatest high, the entry is the last
  close, and \<open>support \<le> entry \<le> resistance\<close>.
\<close>

theorem levels_bracket_entry:
  assumes rows: "df \<noteq> []"
    and sane: "\<forall>c\<in>set (tail 20 df). c_low c \<le> c_close c \<and> c_close c \<le> c_high c"
  shows
  "support (indicator_inputs ta df tf) = Flt (Min (c_low ` set (tail 20 df))) \<and>
   current_price (indicator_inputs ta df tf) = Flt (c_close (last df)) \<and>
   resistance (indicator_inputs ta df tf) = Flt (Max (c_high ` set (tail 20 df))) \<and>
   Min (c_low ` set (tail 20 df)) \<le> c_close (last df) \<and>
   c_close (last df) \<le> Max (c_high ` set (tail 20 df))"
proof -
  have ne: "tail 20 df \<noteq> []" using rows by (simp add: tail_nonempty)
  have mem: "last df \<in> set (tail 20 df)" using rows by (simp add: last_in_tail)
  have "support (indicator_inputs ta df tf) = Flt (Min (c_low ` set (tail 20 df)))"
    using ne by (simp add: indicator_inputs_def Let_def find_support_resistance_def
        series_min_Min)
  moreover have "resistance (indicator_inputs ta df tf) = Flt (Max (c_high ` set (tail 20 df)))"
    using ne by (simp add: indicator_inputs_def Let_def find_support_resistance_def
        series_max_Max)
  moreover have "current_price (indicator_inputs ta df tf) = Flt (c_close (last df))"
    using rows by (simp add: indicator_inputs_def Let_def last_map)
  moreover have "Min (c_low ` set (tail 20 df)) \<le> c_low (last df)"
    using mem by (simp add: Min_le)
  moreover have "c_high (last df) \<le> Max (c_high ` set (tail 20 df))"
    using mem by (simp add: Max_ge)
  moreover have "c_low (last df) \<le> c_close (last df)" "c_close (last df) \<le> c_high (last df)"
    using sane mem by blast+
  ultimately show ?thesis by linarith
qed

lemma tail_flat: "tail 20 (replicate 20 c) = replicate 20 c"
  by (simp add: tail_def)

theorem levels_bracket_entry_witness:
  "support (indicator_inputs ta_reference (replicate 20 flat_candle) ''1h'') = Flt 99 \<and>
   current_price (indicator_inputs ta_reference (replicate 20 flat_candle) ''1h'') = Flt 100 \<and>
   resistance (indicator_inputs ta_reference (replicate 20 flat_candle) ''1h'') = Flt 101"
proof -
  have ne: "replicate 20 flat_candle \<noteq> []" by simp
  have sane: "\<forall>c\<in>set (tail 20 (replicate 20 flat_candle)).
      c_low c \<le> c_close c \<and> c_close c \<le> c_high c"
    by (simp add: tail_flat flat_candle_def)
  from levels_bracket_entry [OF ne sane, of ta_reference "''1h''"]
  show ?thesis by (simp add: tail_flat flat_candle_def)
qed

section \<open>Properties of the image path\<close>

subsection \<open>Pattern flags\<close>

lemma detect_none:
  "detect_chart_patterns None =
     [(''trend_lines'', PInt 0), (''bullish_pattern'', PBool False),
      (''bearish_pattern'', PBool False)]"
  by (simp add: detect_chart_patterns_def)

lemma detect_some:
  "detect_chart_patterns (Some ls) =
     [(''trend_lines'', PInt (int (length ls))),
      (''bullish_pattern'', PBool (fl_greater (np_mean (map line_angle ls)) (Flt 10))),
      (''bearish_pattern'', PBool (\<not> fl_greater (np_mean (map line_angle ls)) (Flt 10) \<and>
         fl_less (np_mean (map line_angle ls)) (Flt (- 10))))]"
  by (simp add: detect_chart_patterns_def Let_def)

lemma mean_above: "fl_greater (np_mean xs) (Flt c) \<longleftrightarrow> xs \<noteq> [] \<and> c < sum_list xs / real (length xs)"
  by (simp add: np_mean_def fl_greater_def)

lemma mean_below: "fl_less (np_mean xs) (Flt c) \<longleftrightarrow> xs \<noteq> [] \<and> sum_list xs / real (length xs) < c"
  by (simp add: np_mean_def)

lemma line_angle_eq:
  "line_angle = (\<lambda>(x1, y1, x2, y2). arctan2 (of_int (y2 - y1)) (of_int (x2 - x1)) * 180 / pi)"
  by (auto simp: fun_eq_iff)

lemma arctan2_right: "0 < x \<Longrightarrow> arctan2 y x = arctan (y / x)"
  by (simp add: arctan2_def)

text \<open>
  Claim C7. The angle of a line is \<^verbatim>\<open>arctan2(y2 - y1, x2 - x1) * 180 / pi\<close>, in degrees.
  The bullish flag is set exactly when lines are detected and the mean of their angles is
  above 10 degrees, the bearish flag exactly when that mean is below -10 degrees; each
  flag is a boolean; the line count is the number of detected lines. With no line both
  flags are false and the count is 0. The two flags are never both set.
\<close>

theorem pattern_classification:
  fixes lines :: "line list option"
  defines "patterns \<equiv> detect_chart_patterns lines"
    and "angle \<equiv> (\<lambda>(x1, y1, x2, y2).
           arctan2 (real_of_int (y2 - y1)) (real_of_int (x2 - x1)) * 180 / pi)"
  shows
  "(map_of patterns ''bullish_pattern'' = Some (PBool True) \<longleftrightarrow>
      (\<exists>ls. lines = Some ls \<and> ls \<noteq> [] \<and>
         10 < sum_list (map angle ls) / real (length ls))) \<and>
   (map_of patterns ''bearish_pattern'' = Some (PBool True) \<longleftrightarrow>
      (\<exists>ls. lines = Some ls \<and> ls \<noteq> [] \<and>
         sum_list (map angle ls) / real (length ls) < - 10)) \<and>
   (map_of patterns ''bullish_pattern'' = Some (PBool True) \<or>
    map_of patterns ''bullish_pattern'' = Some (PBool False)) \<and>
   (map_of patterns ''bearish_pattern'' = Some (PBool True) \<or>
    map_of patterns ''bearish_pattern'' = Some (PBool False)) \<and>
   map_of patterns ''trend_lines'' =
     Some (PInt (case lines of None \<Rightarrow> 0 | Some ls \<Rightarrow> int (length ls))) \<and>
   (lines = None \<or> lines = Some [] \<longrightarrow>
      map_of patterns ''bullish_pattern'' = Some (PBool False) \<and>
      map_of patterns ''bearish_pattern'' = Some (PBool False) \<and>
      map_of patterns ''trend_lines'' = Some (PInt 0)) \<and>
   \<not> (map_of patterns ''bullish_pattern'' = Some (PBool True) \<and>
      map_of patterns ''bearish_pattern'' = Some (PBool True)) \<and>
   (\<forall>y x. 0 < x \<longrightarrow> arctan2 y x = arctan (y / x))"
proof (cases lines)
  case None
  then show ?thesis by (simp add: patterns_def detect_none arctan2_right)
next
  case (Some ls)
  have "\<not> (10 < x \<and> x < - 10)" for x :: real by simp
  moreover have "angle = line_angle" by (simp add: angle_def line_angle_eq)
  ultimately show ?thesis
    unfolding patterns_def Some
    by (auto simp: detect_some mean_above mean_below arctan2_right)
qed

lemma rising_line: "arctan2 100 100 * 180 / pi = 45"
  by (simp add: arctan2_def arctan_one)

lemma falling_line: "arctan2 (- 100) 100 * 180 / pi = - 45"
  by (simp add: arctan2_def arctan_minus arctan_one)

lemma level_line: "arctan2 0 100 * 180 / pi = 0"
  by (simp add: arctan2_def)

lemma upright_line: "arctan2 100 0 * 180 / pi = 90"
  by (simp add: arctan2_def)

theorem pattern_classification_witness:
  "map_of (detect_chart_patterns (Some [(0, 0, 100, 100)])) ''bullish_pattern'' =
     Some (PBool True) \<and>
   map_of (detect_chart_patterns (Some [(0, 0, 100, 100)])) ''bearish_pattern'' =
     Some (PBool False) \<and>
   map_of (detect_chart_patterns (Some [(0, 100, 100, 0)])) ''bearish_pattern'' =
     Some (PBool True) \<and>
   map_of (detect_chart_patterns (Some [(0, 0, 100, 0)])) ''bullish_pattern'' =
     Some (PBool False) \<and>
   map_of (detect_chart_patterns (Some [(0, 0, 0, 100)])) ''bullish_pattern'' =
     Some (PBool True) \<and>
   map_of (detect_chart_patterns (Some [(0, 0, 100, 100), (0, 0, 100, 0), (0, 0, 100, 0)]))
     ''bullish_pattern'' = Some (PBool True) \<and>
   map_of (detect_chart_patterns
       (Some [(0, 0, 100, 100), (0, 0, 100, 0), (0, 0, 100, 0), (0, 0, 100, 0), (0, 0, 100, 0)]))
     ''bullish_pattern'' = Some (PBool False) \<and>
   map_of (detect_chart_patterns
       (Some [(0, 100, 100, 0), (0, 0, 100, 0), (0, 0, 100, 0), (0, 0, 100, 0), (0, 0, 100, 0)]))
     ''bearish_pattern'' = Some (PBool False) \<and>
   map_of (detect_chart_patterns
       (Some [(0, 0, 100, 100), (0, 0, 100, 0), (0, 0, 100, 0), (0, 0, 100, 0), (0, 0, 100, 0)]))
     ''trend_lines'' = Some (PInt 5) \<and>
   map_of (detect_chart_patterns None) ''bullish_pattern'' = Some (PBool False) \<and>
   map_of (detect_chart_patterns None) ''bearish_pattern'' = Some (PBool False) \<and>
   map_of (detect_chart_patterns None) ''trend_lines'' = Some (PInt 0)"
proof -
  note ev = rising_line falling_line level_line upright_line
  have 1: "map_of (detect_chart_patterns (Some [(0, 0, 100, 100)])) ''bullish_pattern'' =
      Some (PBool True) \<and>
    map_of (detect_chart_patterns (Some [(0, 0, 100, 100)])) ''bearish_pattern'' =
      Some (PBool False)"
    using pattern_classification [of "Some [(0, 0, 100, 100)]"] by (simp add: ev) blast
  have 2: "map_of (detect_chart_patterns (Some [(0, 100, 100, 0)])) ''bearish_pattern'' =
      Some (PBool True)"
    using pattern_classification [of "Some [(0, 100, 100, 0)]"] by (simp add: ev)
  have 3: "map_of (detect_chart_patterns (Some [(0, 0, 100, 0)])) ''bullish_pattern'' =
      Some (PBool False)"
    using pattern_classification [of "Some [(0, 0, 100, 0)]"] by (simp add: ev) blast
  have 4: "map_of (detect_chart_patterns (Some [(0, 0, 0, 100)])) ''bullish_pattern'' =
      Some (PBool True)"
    using pattern_classification [of "Some [(0, 0, 0, 100)]"] by (simp add: ev)
  have 5: "map_of (detect_chart_patterns
        (Some [(0, 0, 100, 100), (0, 0, 100, 0), (0, 0, 100, 0)]))
      ''bullish_pattern'' = Some (PBool True)"
    using pattern_classification [of "Some [(0, 0, 100, 100), (0, 0, 100, 0), (0, 0, 100, 0)]"]
    by (simp add: ev)
  have 6: "map_of (detect_chart_patterns
        (Some [(0, 0, 100, 100), (0, 0, 100, 0), (0, 0, 100, 0), (0, 0, 100, 0), (0, 0, 100, 0)]))
      ''bullish_pattern'' = Some (PBool False) \<and>
    map_of (detect_chart_patterns
        (Some [(0, 0, 100, 100), (0, 0, 100, 0), (0, 0, 100, 0), (0, 0, 100, 0), (0, 0, 100, 0)]))
      ''trend_lines'' = Some (PInt 5)"
    using pattern_classification [of
      "Some [(0, 0, 100, 100), (0, 0, 100, 0), (0, 0, 100, 0), (0, 0, 100, 0), (0, 0, 100, 0)]"]
    by (simp add: ev) blast
  have 7: "map_of (detect_chart_patterns
        (Some [(0, 100, 100, 0), (0, 0, 100, 0), (0, 0, 100, 0), (0, 0, 100, 0), (0, 0, 100, 0)]))
      ''bearish_pattern'' = Some (PBool False)"
    using pattern_classification [of
      "Some [(0, 100, 100, 0), (0, 0, 100, 0), (0, 0, 100, 0), (0, 0, 100, 0), (0, 0, 100, 0)]"]
    by (simp add: ev) blast
  have 8: "map_of (detect_chart_patterns None) ''bullish_pattern'' = Some (PBool False) \<and>
    map_of (detect_chart_patterns None) ''bearish_pattern'' = Some (PBool False) \<and>
    map_of (detect_chart_patterns None) ''trend_lines'' = Some (PInt 0)"
    using pattern_classification [of None] by simp
  from 1 2 3 4 5 6 7 8 show ?thesis by blast
qed

subsection \<open>Scoring from the flags\<close>

lemma image_decide_flags:
  assumes "map_of patterns ''bullish_pattern'' = Some (PBool bullish)"
    and "map_of patterns ''bearish_pattern'' = Some (PBool bearish)"
  shows "image_decide patterns =
     Inr (if bullish then (''BUY'', 75) else if bearish then (''SELL'', 75) else (''HOLD'', 60))"
  using assms by (simp add: image_decide_def subscript_def)

lemma uniform_range:
  assumes "0 \<le> u" and "u < 1" and "low < high"
  shows "low \<le> uniform low high u \<and> uniform low high u < high"
proof -
  have "0 \<le> (high - low) * u" using assms by simp
  moreover have "(high - low) * u < (high - low) * 1"
    using assms by (intro mult_strict_left_mono) simp_all
  ultimately show ?thesis by (simp add: uniform_def)
qed

text \<open>
  Claim C8. For pattern flags \<open>bullish\<close> and \<open>bearish\<close> and a draw \<open>u\<close> from the unit
  interval, the image scoring returns a signal: BUY with \<open>75%\<close> when bullish, SELL with
  \<open>75%\<close> when bearish and not bullish, HOLD with \<open>60%\<close> otherwise. The base price lies
  in the interval from 1800 to 2100 and is the entry; take profit and stop loss are the
  entry times 1.025 and 0.985 for BUY, times 0.975 and 1.015 for SELL, and the entry
  itself for HOLD; the three are returned rounded to two decimal places. Action and
  confidence are the same for every draw.
\<close>

theorem image_scoring:
  fixes patterns :: pydict and tf :: string and u :: real
  defines "base \<equiv> uniform 1800 2100 u"
  assumes bull: "map_of patterns ''bullish_pattern'' = Some (PBool bullish)"
    and bear: "map_of patterns ''bearish_pattern'' = Some (PBool bearish)"
    and draw: "0 \<le> u" "u < 1"
  shows
  "\<exists>signal. generate_image_based_signal patterns tf u = Inr signal \<and>
     map_of signal ''action'' =
       Some (PStr (if bullish then ''BUY'' else if bearish then ''SELL'' else ''HOLD'')) \<and>
     map_of signal ''confidence'' =
       Some (PStr (if bullish \<or> bearish then ''75%'' else ''60%'')) \<and>
     1800 \<le> base \<and> base < 2100 \<and>
     map_of signal ''entry'' = Some (PFloat (Flt (round_to 2 base))) \<and>
     map_of signal ''take_profit'' =
       Some (PFloat (Flt (round_to 2
         (if bullish then base * 1.025 else if bearish then base * 0.975 else base)))) \<and>
     map_of signal ''stop_loss'' =
       Some (PFloat (Flt (round_to 2
         (if bullish then base * 0.985 else if bearish then base * 1.015 else base)))) \<and>
     (\<forall>u'. \<exists>signal'. generate_image_based_signal patterns tf u' = Inr signal' \<and>
        map_of signal' ''action'' = map_of signal ''action'' \<and>
        map_of signal' ''confidence'' = map_of signal ''confidence'')"
proof -
  have range: "1800 \<le> base \<and> base < 2100"
    unfolding base_def using draw by (intro uniform_range) simp_all
  have dec: "image_decide patterns =
     Inr (if bullish then (''BUY'', 75) else if bearish then (''SELL'', 75) else (''HOLD'', 60))"
    using bull bear by (rule image_decide_flags)
  show ?thesis
    using range
    by (simp add: generate_image_based_signal_def dec image_levels_def Let_def
        str_int_examples flip: base_def)
qed

theorem image_scoring_witness:
  "generate_image_based_signal (detect_chart_patterns (Some [(0, 0, 100, 100)])) ''1h'' (1 / 2) =
     Inr [(''action'', PStr ''BUY''),
          (''entry'', PFloat (Flt 1950)),
          (''take_profit'', PFloat (Flt 1998.75)),
          (''stop_loss'', PFloat (Flt 1920.75)),
          (''confidence'', PStr ''75%''),
          (''timeframe'', PStr ''1h''),
          (''patterns'', PDict (detect_chart_patterns (Some [(0, 0, 100, 100)]))),
          (''analysis_type'', PStr ''chart_pattern'')]"
proof -
  have b: "map_of (detect_chart_patterns (Some [(0, 0, 100, 100)])) ''bullish_pattern'' =
      Some (PBool True)"
    and s: "map_of (detect_chart_patterns (Some [(0, 0, 100, 100)])) ''bearish_pattern'' =
      Some (PBool False)"
    by (simp_all add: detect_some mean_above rising_line)
  have u: "(0::real) \<le> 1 / 2" "(1::real) / 2 < 1" by simp_all
  have r: "round_to 2 1950 = 1950" "round_to 2 (1950 * 1.025) = 1998.75"
    "round_to 2 (1950 * 0.985) = 1920.75"
    by (simp_all add: round_to_def rint_def)
  from image_scoring [OF b s u, of "''1h''"] r
  show ?thesis
    by (auto simp: uniform_def generate_image_based_signal_def split: sum.splits prod.splits)
qed

section \<open>The error signal\<close>

lemma csv_result_cases:
  "(\<exists>msg. analyze_csv_data ta file tf = generate_error_signal msg) \<or>
   (\<exists>a. analyze_csv_data ta file tf = generate_signal_from_indicators a)"
  by (auto simp: analyze_csv_data_def analyze_csv_body_def calculate_indicators_def Let_def
      split: csv_file.splits sum.splits exn.splits)

lemma image_signal_analysis_type:
  "generate_image_based_signal patterns tf u = Inr signal \<Longrightarrow>
     map_of signal ''analysis_type'' = Some (PStr ''chart_pattern'')"
  by (auto simp: generate_image_based_signal_def Let_def split: sum.splits prod.splits)

lemma chart_result_cases:
  "(\<exists>msg. analyze_chart_image file tf u = generate_error_signal msg) \<or>
   map_of (analyze_chart_image file tf u) ''analysis_type'' = Some (PStr ''chart_pattern'')"
  by (auto simp: analyze_chart_image_def image_signal_analysis_type
      split: chart_file.splits sum.splits exn.splits)

text \<open>
  Claim C10. A result of either entry point whose analysis type is \<^verbatim>\<open>error\<close> has the
  action HOLD and the field \<^verbatim>\<open>error\<close> set to true, and has no \<^verbatim>\<open>timeframe\<close>, no
  \<^verbatim>\<open>indicators\<close> and no \<^verbatim>\<open>patterns\<close> key, whichever failure produced it.
\<close>

theorem error_signal_shape:
  fixes ta :: ta_lib and csv :: csv_file and chart :: chart_file and tf :: string and u :: real
  defines "r1 \<equiv> analyze_csv_data ta csv tf"
    and "r2 \<equiv> analyze_chart_image chart tf u"
  shows
  "(map_of r1 ''analysis_type'' = Some (PStr ''error'') \<longrightarrow>
      map_of r1 ''action'' = Some (PStr ''HOLD'') \<and>
      map_of r1 ''error'' = Some (PBool True) \<and>
      map_of r1 ''timeframe'' = None \<and>
      map_of r1 ''indicators'' = None \<and>
      map_of r1 ''patterns'' = None) \<and>
   (map_of r2 ''analysis_type'' = Some (PStr ''error'') \<longrightarrow>
      map_of r2 ''action'' = Some (PStr ''HOLD'') \<and>
      map_of r2 ''error'' = Some (PBool True) \<and>
      map_of r2 ''timeframe'' = None \<and>
      map_of r2 ''indicators'' = None \<and>
      map_of r2 ''patterns'' = None)"
proof -
  have "\<exists>msg. r1 = generate_error_signal msg"
    if "map_of r1 ''analysis_type'' = Some (PStr ''error'')"
    using that csv_result_cases [of ta csv tf] unfolding r1_def
    by (auto simp: signal_analysis_type)
  moreover have "\<exists>msg. r2 = generate_error_signal msg"
    if "map_of r2 ''analysis_type'' = Some (PStr ''error'')"
    using that chart_result_cases [of chart tf u] unfolding r2_def by auto
  ultimately show ?thesis by (auto simp: error_signal_fields)
qed

theorem error_signal_shape_witness:
  "map_of (analyze_csv_data ta_reference (Parsed no_low_frame) ''1h'') ''analysis_type'' =
     Some (PStr ''error'') \<and>
   map_of (analyze_csv_data ta_reference (Parsed no_low_frame) ''1h'') ''action'' =
     Some (PStr ''HOLD'') \<and>
   map_of (analyze_csv_data ta_reference (Parsed no_low_frame) ''1h'') ''error'' =
     Some (PBool True) \<and>
   map_of (analyze_csv_data ta_reference (Parsed no_low_frame) ''1h'') ''timeframe'' = None \<and>
   map_of (analyze_chart_image ImreadNone ''1h'' (1 / 2)) ''analysis_type'' =
     Some (PStr ''error'') \<and>
   map_of (analyze_chart_image ImreadNone ''1h'' (1 / 2)) ''action'' = Some (PStr ''HOLD'') \<and>
   map_of (analyze_chart_image ImreadNone ''1h'' (1 / 2)) ''error'' = Some (PBool True) \<and>
   map_of (analyze_chart_image ImreadNone ''1h'' (1 / 2)) ''patterns'' = None"
proof -
  have 1: "map_of (analyze_csv_data ta_reference (Parsed no_low_frame) ''1h'') ''analysis_type'' =
     Some (PStr ''error'')"
    by (simp add: analyze_csv_missing missing_no_low error_signal_fields)
  have 2: "map_of (analyze_chart_image ImreadNone ''1h'' (1 / 2)) ''analysis_type'' =
     Some (PStr ''error'')"
    by (simp add: analyze_chart_image_def error_signal_fields)
  from error_signal_shape [of ta_reference "Parsed no_low_frame" "''1h''" ImreadNone "1 / 2"] 1 2
  show ?thesis by simp
qed

end
